theory Spec2Isabelle
  imports Main
begin

section \<open>JavaScript values and string helpers\<close>

text \<open>
  The orchestrator class \<open>CognitoAuth\<close> (src/src/CognitoAuth.ts) is embedded as a record
  of its fields and one HOL function per method. A method takes the object and returns the
  updated object with its result. What the class does to its collaborators (the UI launcher,
  the registered user handler, the token endpoint) is appended to a trace carried by the
  object. Strings are byte lists, read as the UTF-8 form of the JavaScript string.

  Several fields are typed \<open>any\<close> or may be absent: such a value is \<open>undefined\<close>,
  \<open>null\<close> or a string.
\<close>

datatype jsval = Undefined | Null | Str string

text \<open>JavaScript truthiness of such a value: only a non-empty string is truthy.\<close>

fun truthy :: "jsval \<Rightarrow> bool" where
  "truthy (Str s) = (s \<noteq> [])"
| "truthy Undefined = False"
| "truthy Null = False"

text \<open>The test \<open>v == null\<close>, which holds of \<open>null\<close> and of \<open>undefined\<close>.\<close>

fun isNullish :: "jsval \<Rightarrow> bool" where
  "isNullish (Str s) = False"
| "isNullish Undefined = True"
| "isNullish Null = True"

text \<open>String conversion, as done by a template literal, by \<open>String(v)\<close> and by \<open>concat\<close>.\<close>

fun toString :: "jsval \<Rightarrow> string" where
  "toString (Str s) = s"
| "toString Undefined = ''undefined''"
| "toString Null = ''null''"

fun ofOption :: "string option \<Rightarrow> jsval" where
  "ofOption None = Null"
| "ofOption (Some s) = Str s"

text \<open>\<open>xs[i]\<close> on an array of strings: \<open>undefined\<close> out of range.\<close>

definition at :: "string list \<Rightarrow> nat \<Rightarrow> jsval" where
  "at xs i = (if i < length xs then Str (xs ! i) else Undefined)"

text \<open>\<open>Array.prototype.join\<close> and \<open>String.prototype.split\<close> with a one-character separator.\<close>

fun join :: "string \<Rightarrow> string list \<Rightarrow> string" where
  "join sep [] = []"
| "join sep [x] = x"
| "join sep (x # y # ys) = x @ sep @ join sep (y # ys)"

fun split :: "char \<Rightarrow> string \<Rightarrow> string list" where
  "split c [] = [[]]"
| "split c (x # xs) =
     (if x = c then [] # split c xs
      else (case split c xs of [] \<Rightarrow> [[x]] | w # ws \<Rightarrow> (x # w) # ws))"

text \<open>
  \<open>encodeURIComponent\<close>: every byte outside the unreserved set
  \<open>A-Z a-z 0-9 - _ . ! ~ * ' ( )\<close> becomes \<open>%XX\<close> with upper-case hexadecimal digits.
\<close>

definition hexDigit :: "nat \<Rightarrow> char" where
  "hexDigit n = ''0123456789ABCDEF'' ! (n mod 16)"

definition uriUnreserved :: "char \<Rightarrow> bool" where
  "uriUnreserved c =
     (c \<in> set (''ABCDEFGHIJKLMNOPQRSTUVWXYZabcdefghijklmnopqrstuvwxyz0123456789-_.!~*()''
               @ [CHR 0x27]))"

definition encodeURIComponent :: "string \<Rightarrow> string" where
  "encodeURIComponent s =
     concat (map (\<lambda>c. if uriUnreserved c then [c]
                       else [CHR ''%'', hexDigit ((of_char c :: nat) div 16),
                             hexDigit ((of_char c :: nat) mod 16)]) s)"

text \<open>
  A JavaScript \<open>Set\<close> built from an array keeps the first occurrence of each element, in
  insertion order; \<open>Map\<close> is a finite map whose keys may be any value.
\<close>

fun newSet :: "'a list \<Rightarrow> 'a list" where
  "newSet [] = []"
| "newSet (x # xs) = x # filter (\<lambda>y. y \<noteq> x) (newSet xs)"

type_synonym jsmap = "jsval \<rightharpoonup> jsval"

definition has :: "jsmap \<Rightarrow> string \<Rightarrow> bool" where
  "has m k = (m (Str k) \<noteq> None)"

definition get :: "jsmap \<Rightarrow> string \<Rightarrow> jsval" where
  "get m k = (case m (Str k) of None \<Rightarrow> Undefined | Some v \<Rightarrow> v)"

section \<open>Constants\<close>

text \<open>
  Constants of \<open>CognitoConstants\<close> whose values the specification fixes (the sign-in wire
  contract \<open>https://{domain}/oauth2/authorize?redirect_uri=...&response_type={token|code}
  &client_id=...&state={32-char-random}&scope=...[&identity_provider=...][&userContextData=...]\<close>,
  the token field names, and the delimiters of a callback response).
\<close>

definition DOMAIN_SCHEME :: string where
  \<comment> \<open>Modelled from the spec: \<open>CognitoConstants.DOMAIN_SCHEME\<close>, the wire contract's scheme.\<close>
  "DOMAIN_SCHEME = ''https''"

definition COLONDOUBLESLASH :: string where
  \<comment> \<open>Modelled from the spec: \<open>CognitoConstants.COLONDOUBLESLASH\<close>.\<close>
  "COLONDOUBLESLASH = ''://''"

definition SLASH :: string where
  \<comment> \<open>Modelled from the spec: \<open>CognitoConstants.SLASH\<close>.\<close>
  "SLASH = ''/''"

definition DOMAIN_PATH_SIGNIN :: string where
  \<comment> \<open>Modelled from the spec: \<open>CognitoConstants.DOMAIN_PATH_SIGNIN\<close>, the fixed authorize path.\<close>
  "DOMAIN_PATH_SIGNIN = ''oauth2/authorize''"

definition QUESTIONMARK :: string where
  \<comment> \<open>Modelled from the spec: \<open>CognitoConstants.QUESTIONMARK\<close>.\<close>
  "QUESTIONMARK = ''?''"

definition EQUALSIGN :: string where
  \<comment> \<open>Modelled from the spec: \<open>CognitoConstants.EQUALSIGN\<close>.\<close>
  "EQUALSIGN = ''=''"

definition AMPERSAND :: string where
  \<comment> \<open>Modelled from the spec: \<open>CognitoConstants.AMPERSAND\<close>.\<close>
  "AMPERSAND = ''&''"

definition SPACE :: string where
  \<comment> \<open>Modelled from the spec: \<open>CognitoConstants.SPACE\<close>, the separator of the scope list.\<close>
  "SPACE = '' ''"

definition DOMAIN_QUERY_PARAM_REDIRECT_URI :: string where
  \<comment> \<open>Modelled from the spec: \<open>CognitoConstants.DOMAIN_QUERY_PARAM_REDIRECT_URI\<close>.\<close>
  "DOMAIN_QUERY_PARAM_REDIRECT_URI = ''redirect_uri''"

definition DOMAIN_QUERY_PARAM_RESPONSE_TYPE :: string where
  \<comment> \<open>Modelled from the spec: \<open>CognitoConstants.DOMAIN_QUERY_PARAM_RESPONSE_TYPE\<close>.\<close>
  "DOMAIN_QUERY_PARAM_RESPONSE_TYPE = ''response_type''"

definition DOMAIN_QUERY_PARAM_IDENTITY_PROVIDER :: string where
  \<comment> \<open>Modelled from the spec: \<open>CognitoConstants.DOMAIN_QUERY_PARAM_IDENTITY_PROVIDER\<close>.\<close>
  "DOMAIN_QUERY_PARAM_IDENTITY_PROVIDER = ''identity_provider''"

definition DOMAIN_QUERY_PARAM_USERCONTEXTDATA :: string where
  \<comment> \<open>Modelled from the spec: \<open>CognitoConstants.DOMAIN_QUERY_PARAM_USERCONTEXTDATA\<close>.\<close>
  "DOMAIN_QUERY_PARAM_USERCONTEXTDATA = ''userContextData''"

definition CLIENT_ID :: string where
  \<comment> \<open>Modelled from the spec: \<open>CognitoConstants.CLIENT_ID\<close>.\<close>
  "CLIENT_ID = ''client_id''"

definition STATE :: string where
  \<comment> \<open>Modelled from the spec: \<open>CognitoConstants.STATE\<close>.\<close>
  "STATE = ''state''"

definition SCOPE :: string where
  \<comment> \<open>Modelled from the spec: \<open>CognitoConstants.SCOPE\<close>.\<close>
  "SCOPE = ''scope''"

definition TOKEN :: string where
  \<comment> \<open>Modelled from the spec: \<open>CognitoConstants.TOKEN\<close>, the implicit response type.\<close>
  "TOKEN = ''token''"

definition CODE :: string where
  \<comment> \<open>Modelled from the spec: \<open>CognitoConstants.CODE\<close>, the authorization-code response type.\<close>
  "CODE = ''code''"

definition ERROR :: string where
  \<comment> \<open>Modelled from the spec: \<open>CognitoConstants.ERROR\<close>, the \<open>error\<close> field.\<close>
  "ERROR = ''error''"

definition IDTOKEN :: string where
  \<comment> \<open>Modelled from the spec: \<open>CognitoConstants.IDTOKEN\<close>.\<close>
  "IDTOKEN = ''id_token''"

definition ACCESSTOKEN :: string where
  \<comment> \<open>Modelled from the spec: \<open>CognitoConstants.ACCESSTOKEN\<close>.\<close>
  "ACCESSTOKEN = ''access_token''"

definition REFRESHTOKEN :: string where
  \<comment> \<open>Modelled from the spec: \<open>CognitoConstants.REFRESHTOKEN\<close>.\<close>
  "REFRESHTOKEN = ''refresh_token''"

definition STATELENGTH :: nat where
  \<comment> \<open>Modelled from the spec: \<open>CognitoConstants.STATELENGTH\<close>, a 32-character state.\<close>
  "STATELENGTH = 32"

text \<open>The messages of \<open>CognitoConstants\<close> that the class raises, by name.\<close>

datatype message = PARAMETERERROR | SCOPETYPEERROR | PARSETYPEERROR | REFRESHTYPEERROR

text \<open>
  What is thrown or passed to a failure channel: \<open>new Error(message)\<close>, a bare message
  string, the \<open>TypeError\<close> of a property access on \<open>null\<close> or \<open>undefined\<close>, or whatever
  the token endpoint exchange failed with.
\<close>

datatype errval = ErrorOf message | Message message | TypeError | Transport string

section \<open>Tokens and the session\<close>

text \<open>
  The classes \<open>CognitoToken\<close>, \<open>CognitoRefreshToken\<close>, \<open>CognitoTokenScopes\<close> and
  \<open>CognitoAuthSession\<close> are imported by \<open>CognitoAuth.ts\<close>; the orchestrator uses their
  constructors, getters and setters and \<open>isValid\<close>.
\<close>

datatype CognitoToken = CognitoToken (getJwtToken: "string option")
  \<comment> \<open>Modelled from the spec: the class \<open>CognitoToken\<close>, a wrapper around
      \<open>raw: string | null\<close>.\<close>

datatype CognitoRefreshToken = CognitoRefreshToken (getToken: "string option")
  \<comment> \<open>Modelled from the spec: the class \<open>CognitoRefreshToken\<close>, a wrapper around
      \<open>raw: string | null\<close>.\<close>

definition newCognitoToken :: "jsval \<Rightarrow> CognitoToken" where
  \<comment> \<open>Modelled from the spec: the constructor of \<open>CognitoToken\<close>; an absent argument
      gives the empty token.\<close>
  "newCognitoToken v = CognitoToken (case v of Str t \<Rightarrow> Some t | Undefined \<Rightarrow> None | Null \<Rightarrow> None)"

definition newCognitoRefreshToken :: "jsval \<Rightarrow> CognitoRefreshToken" where
  \<comment> \<open>Modelled from the spec: the constructor of \<open>CognitoRefreshToken\<close>; an absent
      argument gives the empty refresh token.\<close>
  "newCognitoRefreshToken v =
     CognitoRefreshToken (case v of Str t \<Rightarrow> Some t | Undefined \<Rightarrow> None | Null \<Rightarrow> None)"

record CognitoAuthSession =
  idToken :: CognitoToken
  accessToken :: CognitoToken
  refreshToken :: CognitoRefreshToken
  tokenScopes :: "string list"
  csrfState :: jsval

definition newCognitoAuthSession :: CognitoAuthSession where
  \<comment> \<open>Modelled from the spec: \<open>new CognitoAuthSession()\<close>, the empty Session (empty
      tokens, no scopes, no state).\<close>
  "newCognitoAuthSession =
     \<lparr>idToken = CognitoToken None, accessToken = CognitoToken None,
      refreshToken = CognitoRefreshToken None, tokenScopes = [], csrfState = Null\<rparr>"

text \<open>
  Decoding a token is opaque to the orchestrator: the clock and the two claims read from a
  token string are parameters, as are the other things the class takes from outside itself.
\<close>

datatype grant = AuthorizationCode jsval | RefreshGrant jsval

datatype exchange = Unanswered | Responded jsmap | Failed errval

record env =
  now :: nat
  jwtExpiration :: "string \<Rightarrow> nat option"
  jwtSubject :: "string \<Rightarrow> string option"
  securityData :: "(string \<Rightarrow> string \<Rightarrow> string \<Rightarrow> jsval) option"
  draws :: "nat \<Rightarrow> nat"
  makePostCode :: "grant \<Rightarrow> exchange"
  STATEORIGINSTRING :: string
  DOMAIN_PATH_SIGNOUT :: string
  DOMAIN_QUERY_PARAM_SIGNOUT_URI :: string
  splitREGEX1 :: "string \<Rightarrow> string list"
  splitREGEX2 :: "string \<Rightarrow> string list"

text \<open>
  \<^item> \<open>now\<close>: the clock, in epoch seconds;
  \<^item> \<open>jwtExpiration\<close>, \<open>jwtSubject\<close>: the expiration and subject claims of a token string;
  \<^item> \<open>securityData\<close>: \<open>AmazonCognitoAdvancedSecurityData.getData\<close>, or \<open>None\<close> when
    that global is not defined;
  \<^item> \<open>draws\<close>: the \<open>k\<close>-th value of \<open>Math.round(Math.random() * (chars.length - 1))\<close>;
  \<^item> \<open>makePostCode\<close>: how the token endpoint answers a request of \<open>makePostCode\<close>: not
    at all (the promise stays pending), with a JSON object read into a \<open>Map\<close>, or with a
    failure;
  \<^item> \<open>STATEORIGINSTRING\<close>, \<open>DOMAIN_PATH_SIGNOUT\<close>, \<open>DOMAIN_QUERY_PARAM_SIGNOUT_URI\<close>:
    constants of \<open>CognitoConstants\<close>;
  \<^item> \<open>splitREGEX1\<close>, \<open>splitREGEX2\<close>: \<open>String.prototype.split\<close> with the regular
    expressions \<open>QUERYPARAMETERREGEX1\<close> and \<open>QUERYPARAMETERREGEX2\<close> of
    \<open>CognitoConstants\<close>.
\<close>

definition getExpiration :: "env \<Rightarrow> CognitoToken \<Rightarrow> nat option" where
  \<comment> \<open>Modelled from the spec: \<open>expirationEpochSeconds: number | null\<close> of a Token.\<close>
  "getExpiration E t = (case getJwtToken t of None \<Rightarrow> None | Some r \<Rightarrow> jwtExpiration E r)"

definition getUsername :: "env \<Rightarrow> CognitoToken \<Rightarrow> jsval" where
  \<comment> \<open>Modelled from the spec: \<open>subject: string | null\<close> of a Token.\<close>
  "getUsername E t =
     (case getJwtToken t of None \<Rightarrow> Null | Some r \<Rightarrow> ofOption (jwtSubject E r))"

definition isValid :: "env \<Rightarrow> CognitoAuthSession \<Rightarrow> bool" where
  \<comment> \<open>Modelled from the spec: \<open>isValid()\<close> of \<open>CognitoAuthSession\<close> holds iff the id token
      and the access token are both present and their expiration is strictly in the
      future.\<close>
  "isValid E sess =
     (case (getExpiration E (idToken sess), getExpiration E (accessToken sess)) of
        (Some i, Some a) \<Rightarrow> now E < i \<and> now E < a
      | (Some i, None) \<Rightarrow> False
      | (None, b) \<Rightarrow> False)"

section \<open>The orchestrator object\<close>

text \<open>
  What the object does to its collaborators, oldest first: a URI handed to \<open>launchUri\<close>,
  a call of the registered handler's \<open>onSuccess\<close> or \<open>onFailure\<close>, a request sent by
  \<open>makePostCode\<close>.
\<close>

datatype event =
    Launched string
  | OnSuccess "CognitoAuthSession option"
  | OnFailure errval
  | Posted grant

record CognitoAuth =
  username :: jsval
  clientId :: string
  appWebDomain :: string
  tokenScopesArray :: "string list"
  redirectUriSignIn :: string
  redirectUriSignOut :: string
  identityProvider :: jsval
  userPoolId :: jsval
  advancedSecurityDataCollectionFlag :: bool
  storage :: "string \<rightharpoonup> jsval"
  signInUserSession :: "CognitoAuthSession option"
  state :: jsval
  userhandler :: bool
  responseType :: string
  drawn :: nat
  trace :: "event list"

text \<open>
  \<open>signInUserSession\<close> is \<open>None\<close> when the field is \<open>null\<close>; \<open>userhandler\<close> says whether a
  handler is registered; \<open>drawn\<close> counts the calls of \<open>Math.random\<close> so far.

  How a method call ends: with a promise that is fulfilled, rejected or still pending, with
  an exception thrown before any promise is returned, or by returning \<open>undefined\<close> where a
  promise was announced.
\<close>

datatype 'a completion = Fulfilled 'a | Rejected errval | Threw errval | NotAPromise | Pending

definition emit :: "event \<Rightarrow> CognitoAuth \<Rightarrow> CognitoAuth" where
  "emit e s = s\<lparr>trace := trace s @ [e]\<rparr>"

definition launchUri :: "string \<Rightarrow> CognitoAuth \<Rightarrow> CognitoAuth" where
  "launchUri URL s = emit (Launched URL) s"

text \<open>The storage collaborator: \<open>getItem\<close> of an absent key is \<open>null\<close>.\<close>

definition getItem :: "(string \<rightharpoonup> jsval) \<Rightarrow> string \<Rightarrow> jsval" where
  "getItem m k = (case m k of None \<Rightarrow> Null | Some v \<Rightarrow> v)"

definition setItem :: "string \<Rightarrow> jsval \<Rightarrow> CognitoAuth \<Rightarrow> CognitoAuth" where
  "setItem k v s = s\<lparr>storage := (storage s)(k \<mapsto> v)\<rparr>"

definition removeItem :: "string \<Rightarrow> CognitoAuth \<Rightarrow> CognitoAuth" where
  "removeItem k s = s\<lparr>storage := (storage s)(k := None)\<rparr>"

section \<open>Methods of \<open>CognitoAuth\<close>\<close>

subsection \<open>Cache keys, the cached session, the last user\<close>

definition keyPrefix :: "CognitoAuth \<Rightarrow> string" where
  "keyPrefix s = ''CognitoIdentityServiceProvider.'' @ clientId s"

definition userKey :: "CognitoAuth \<Rightarrow> jsval \<Rightarrow> string \<Rightarrow> string" where
  "userKey s u field = keyPrefix s @ ''.'' @ toString u @ ''.'' @ field"

definition lastUserKey :: "CognitoAuth \<Rightarrow> string" where
  "lastUserKey s = keyPrefix s @ ''.LastAuthUser''"

definition getCachedSession :: "CognitoAuth \<Rightarrow> CognitoAuthSession" where
  "getCachedSession s =
     (if \<not> truthy (username s) then newCognitoAuthSession
      else
        let idTokenKey = userKey s (username s) ''idToken'';
            accessTokenKey = userKey s (username s) ''accessToken'';
            refreshTokenKey = userKey s (username s) ''refreshToken'';
            scopeKey = userKey s (username s) ''tokenScopesString'';
            scopesString = getItem (storage s) scopeKey;
            scopesArray = (if truthy scopesString then split (CHR '' '') (toString scopesString)
                           else [])
        in \<lparr>idToken = newCognitoToken (getItem (storage s) idTokenKey),
            accessToken = newCognitoToken (getItem (storage s) accessTokenKey),
            refreshToken = newCognitoRefreshToken (getItem (storage s) refreshTokenKey),
            tokenScopes = scopesArray,
            csrfState = Null\<rparr>)"

definition getLastUser :: "CognitoAuth \<Rightarrow> jsval" where
  "getLastUser s =
     (let lastUserName = getItem (storage s) (lastUserKey s)
      in if truthy lastUserName then lastUserName else Undefined)"

text \<open>
  \<open>cacheTokensScopes\<close> dereferences the held session first: on \<open>null\<close> it throws before
  it has changed anything.
\<close>

definition cacheTokensScopes :: "env \<Rightarrow> CognitoAuth \<Rightarrow> errval + CognitoAuth" where
  "cacheTokensScopes E s =
     (case signInUserSession s of
        None \<Rightarrow> Inl TypeError
      | Some sess \<Rightarrow>
          let tokenUserName = getUsername E (accessToken sess);
              s1 = s\<lparr>username := tokenUserName\<rparr>;
              idTokenKey = userKey s tokenUserName ''idToken'';
              accessTokenKey = userKey s tokenUserName ''accessToken'';
              refreshTokenKey = userKey s tokenUserName ''refreshToken'';
              scopeKey = userKey s tokenUserName ''tokenScopesString'';
              scopesString = join '' '' (tokenScopes sess);
              s2 = setItem idTokenKey (ofOption (getJwtToken (idToken sess))) s1;
              s3 = setItem accessTokenKey (ofOption (getJwtToken (accessToken sess))) s2;
              s4 = setItem refreshTokenKey (ofOption (getToken (refreshToken sess))) s3;
              s5 = setItem (lastUserKey s) tokenUserName s4
          in Inr (setItem scopeKey (Str scopesString) s5))"

definition clearCachedTokensScopes :: "CognitoAuth \<Rightarrow> CognitoAuth" where
  "clearCachedTokensScopes s =
     (let idTokenKey = userKey s (username s) ''idToken'';
          accessTokenKey = userKey s (username s) ''accessToken'';
          refreshTokenKey = userKey s (username s) ''refreshToken'';
          scopeKey = userKey s (username s) ''tokenScopesString'';
          s1 = removeItem idTokenKey s;
          s2 = removeItem accessTokenKey s1;
          s3 = removeItem refreshTokenKey s2;
          s4 = removeItem (lastUserKey s) s3
      in removeItem scopeKey s4)"

subsection \<open>Comparing scope sets\<close>

fun hasAll :: "'a list \<Rightarrow> 'a list \<Rightarrow> bool" where
  "hasAll [] set2 = True"
| "hasAll (item # rest) set2 = (if \<not> List.member set2 item then False else hasAll rest set2)"

definition compareSets :: "'a list \<Rightarrow> 'a list \<Rightarrow> bool" where
  "compareSets set1 set2 = (if length set1 \<noteq> length set2 then False else hasAll set1 set2)"

subsection \<open>The sign-in and sign-out URLs\<close>

fun generateRandomString :: "nat \<Rightarrow> string \<Rightarrow> (nat \<Rightarrow> nat) \<Rightarrow> nat \<Rightarrow> string" where
  "generateRandomString 0 chars d k = []"
| "generateRandomString (Suc i) chars d k =
     (if d k < length chars then [chars ! d k] else ''undefined'')
       @ generateRandomString i chars d (Suc k)"

definition getSpaceSeperatedScopeString :: "CognitoAuth \<Rightarrow> errval + string" where
  "getSpaceSeperatedScopeString s =
     (case signInUserSession s of
        None \<Rightarrow> Inl TypeError
      | Some sess \<Rightarrow> Inr (encodeURIComponent (join SPACE (tokenScopes sess))))"

definition getUserContextData :: "env \<Rightarrow> CognitoAuth \<Rightarrow> jsval" where
  "getUserContextData E s =
     (case securityData E of
        None \<Rightarrow> Undefined
      | Some getData \<Rightarrow>
          let username' = (if truthy (username s) then toString (username s) else []);
              userpoolId = (if truthy (userPoolId s) then toString (userPoolId s) else [])
          in if advancedSecurityDataCollectionFlag s
             then getData username' userpoolId (clientId s) else Undefined)"

definition getFQDNSignIn :: "env \<Rightarrow> CognitoAuth \<Rightarrow> (errval + string) \<times> CognitoAuth" where
  "getFQDNSignIn E s0 =
     (let s = (if isNullish (state s0)
               then s0\<lparr>state := Str (generateRandomString STATELENGTH (STATEORIGINSTRING E)
                                        (draws E) (drawn s0)),
                       drawn := drawn s0 + STATELENGTH\<rparr>
               else s0);
          identityProviderParam =
            (if truthy (identityProvider s)
             then AMPERSAND @ DOMAIN_QUERY_PARAM_IDENTITY_PROVIDER @ EQUALSIGN
                    @ toString (identityProvider s)
             else [])
      in case getSpaceSeperatedScopeString s of
           Inl e \<Rightarrow> (Inl e, s)
         | Inr tokenScopesString \<Rightarrow>
             let userContextData = getUserContextData E s;
                 userContextDataParam =
                   (if truthy userContextData
                    then AMPERSAND @ DOMAIN_QUERY_PARAM_USERCONTEXTDATA @ EQUALSIGN
                           @ toString (getUserContextData E s)
                    else [])
             in (Inr (DOMAIN_SCHEME @ COLONDOUBLESLASH @ appWebDomain s @ SLASH
                        @ DOMAIN_PATH_SIGNIN @ QUESTIONMARK
                        @ DOMAIN_QUERY_PARAM_REDIRECT_URI @ EQUALSIGN
                        @ encodeURIComponent (redirectUriSignIn s) @ AMPERSAND
                        @ DOMAIN_QUERY_PARAM_RESPONSE_TYPE @ EQUALSIGN
                        @ responseType s @ AMPERSAND @ CLIENT_ID @ EQUALSIGN @ clientId s
                        @ AMPERSAND @ STATE @ EQUALSIGN @ toString (state s) @ AMPERSAND
                        @ SCOPE @ EQUALSIGN @ tokenScopesString @ identityProviderParam
                        @ userContextDataParam), s))"

definition getFQDNSignOut :: "env \<Rightarrow> CognitoAuth \<Rightarrow> string" where
  "getFQDNSignOut E s =
     DOMAIN_SCHEME @ COLONDOUBLESLASH @ appWebDomain s @ SLASH @ DOMAIN_PATH_SIGNOUT E
       @ QUESTIONMARK @ DOMAIN_QUERY_PARAM_SIGNOUT_URI E @ EQUALSIGN
       @ encodeURIComponent (redirectUriSignOut s) @ AMPERSAND @ CLIENT_ID @ EQUALSIGN
       @ clientId s"

definition signOut :: "env \<Rightarrow> CognitoAuth \<Rightarrow> CognitoAuth" where
  "signOut E s =
     (let URL = getFQDNSignOut E s;
          s1 = s\<lparr>signInUserSession := None\<rparr>;
          s2 = clearCachedTokensScopes s1
      in launchUri URL s2)"

subsection \<open>Refreshing, parsing a callback response, resolving a session\<close>

text \<open>
  The \<open>catch\<close> callback shared by \<open>refreshSession\<close> and \<open>parseCognitoWebResponse\<close>: with a
  registered handler the error goes to \<open>onFailure\<close> and the promise is fulfilled with
  \<open>undefined\<close>; without one the promise is rejected. A \<open>then\<close> callback is run at once on
  the object as the call left it.
\<close>

definition onRejected ::
  "errval \<Rightarrow> CognitoAuth \<Rightarrow> (CognitoAuthSession option) completion \<times> CognitoAuth" where
  "onRejected e s =
     (if userhandler s then (Fulfilled None, emit (OnFailure e) s) else (Rejected e, s))"

definition refreshSession ::
  "env \<Rightarrow> jsval \<Rightarrow> CognitoAuth \<Rightarrow> (CognitoAuthSession option) completion \<times> CognitoAuth" where
  "refreshSession E refreshToken' s =
     (if responseType s = TOKEN then
        (if userhandler s then (NotAPromise, emit (OnFailure (Message REFRESHTYPEERROR)) s)
         else (Rejected (Message REFRESHTYPEERROR), s))
      else
        let s1 = emit (Posted (RefreshGrant refreshToken')) s in
        case makePostCode E (RefreshGrant refreshToken') of
          Unanswered \<Rightarrow> (Pending, s1)
        | Failed e \<Rightarrow> onRejected e s1
        | Responded m \<Rightarrow>
            if has m ERROR then
              (case getFQDNSignIn E s1 of
                 (Inl e, s2) \<Rightarrow> onRejected e s2
               | (Inr URL, s2) \<Rightarrow> onRejected (ErrorOf REFRESHTYPEERROR) (launchUri URL s2))
            else
              (case signInUserSession s1 of
                 None \<Rightarrow> onRejected TypeError s1
               | Some sess \<Rightarrow>
                   let sess1 = (if has m IDTOKEN
                                then sess\<lparr>idToken := newCognitoToken (get m IDTOKEN)\<rparr>
                                else sess);
                       sess2 = (if has m ACCESSTOKEN
                                then sess1\<lparr>accessToken := newCognitoToken (get m ACCESSTOKEN)\<rparr>
                                else sess1);
                       s2 = s1\<lparr>signInUserSession := Some sess2\<rparr>
                   in (case cacheTokensScopes E s2 of
                         Inl e \<Rightarrow> onRejected e s2
                       | Inr s3 \<Rightarrow>
                           (Fulfilled (signInUserSession s3),
                            if userhandler s3 then emit (OnSuccess (signInUserSession s3)) s3
                            else s3))))"

definition resolveCognitoAuthSession ::
  "env \<Rightarrow> jsmap \<Rightarrow> CognitoAuth \<Rightarrow> (errval + CognitoAuthSession) \<times> CognitoAuth" where
  "resolveCognitoAuthSession E m s =
     (if has m ERROR then (Inl (ErrorOf PARSETYPEERROR), s)
      else
        case signInUserSession s of
          None \<Rightarrow> (Inl TypeError, s)
        | Some sess \<Rightarrow>
            let sess' = sess
                  \<lparr>idToken := (if has m IDTOKEN then newCognitoToken (get m IDTOKEN)
                               else newCognitoToken Undefined),
                   accessToken := (if has m ACCESSTOKEN then newCognitoToken (get m ACCESSTOKEN)
                                   else newCognitoToken Undefined),
                   csrfState := (if has m STATE then get m STATE else Null),
                   refreshToken := (if has m REFRESHTOKEN
                                    then newCognitoRefreshToken (get m REFRESHTOKEN)
                                    else newCognitoRefreshToken Undefined)\<rparr>;
                s1 = s\<lparr>signInUserSession := Some sess'\<rparr>
            in (case cacheTokensScopes E s1 of
                  Inl e \<Rightarrow> (Inl e, s1)
                | Inr s2 \<Rightarrow> (Inr sess', s2)))"

text \<open>
  \<open>getQueryParameters\<close> takes the two \<open>split\<close> calls whose separator is a parameter or a
  regular expression as functions; \<open>&\<close> separates the pairs.
\<close>

definition getQueryParameters ::
  "(string \<Rightarrow> string list) \<Rightarrow> (string \<Rightarrow> string list) \<Rightarrow> jsval \<Rightarrow> jsmap" where
  "getQueryParameters splitMark splitPair url =
     (let str = splitMark (toString url);
          url2 = at str 1;
          str1 = split (CHR ''&'') (toString url2)
      in foldl (\<lambda>m p. let kv = splitPair p in m(at kv 0 \<mapsto> at kv 1)) Map.empty str1)"

definition parseCognitoToken :: "env \<Rightarrow> string \<Rightarrow> jsmap" where
  "parseCognitoToken E httpRequestResponse =
     getQueryParameters (splitREGEX1 E) (splitREGEX2 E) (Str httpRequestResponse)"

definition parseCognitoCode ::
  "env \<Rightarrow> string \<Rightarrow> CognitoAuth \<Rightarrow> jsmap completion \<times> CognitoAuth" where
  "parseCognitoCode E httpRequestResponse s =
     (let response = at (split (CHR ''#'') httpRequestResponse) 0;
          m = getQueryParameters (split (CHR ''?'')) (splitREGEX2 E) response
      in if has m ERROR then (Threw (ErrorOf PARSETYPEERROR), s)
         else
           case signInUserSession s of
             None \<Rightarrow> (Threw TypeError, s)
           | Some sess \<Rightarrow>
               let s1 = s\<lparr>signInUserSession :=
                            Some (sess\<lparr>csrfState := (if has m STATE then get m STATE else Null)\<rparr>)\<rparr>
               in if has m CODE then
                    (let body = AuthorizationCode (get m CODE);
                         s2 = emit (Posted body) s1
                     in case makePostCode E body of
                          Unanswered \<Rightarrow> (Pending, s2)
                        | Responded data \<Rightarrow> (Fulfilled data, s2)
                        | Failed e \<Rightarrow> (Rejected e, s2))
                  else (NotAPromise, s1))"

text \<open>
  In \<open>parseCognitoWebResponse\<close> an exception of \<open>parseCognitoCode\<close> is thrown before
  \<open>then\<close> and \<open>catch\<close> are attached, and \<open>then\<close> on a returned \<open>undefined\<close> is a
  \<open>TypeError\<close>.
\<close>

definition parseCognitoWebResponse ::
  "env \<Rightarrow> string \<Rightarrow> CognitoAuth \<Rightarrow> (CognitoAuthSession option) completion \<times> CognitoAuth" where
  "parseCognitoWebResponse E httpRequestResponse s =
     (case (if responseType s = TOKEN then (Fulfilled (parseCognitoToken E httpRequestResponse), s)
            else parseCognitoCode E httpRequestResponse s) of
        (Threw e, s1) \<Rightarrow> (Threw e, s1)
      | (NotAPromise, s1) \<Rightarrow> (Threw TypeError, s1)
      | (Pending, s1) \<Rightarrow> (Pending, s1)
      | (Rejected e, s1) \<Rightarrow> onRejected e s1
      | (Fulfilled data, s1) \<Rightarrow>
          (case resolveCognitoAuthSession E data s1 of
             (Inl e, s2) \<Rightarrow> onRejected e s2
           | (Inr result, s2) \<Rightarrow>
               (Fulfilled (Some result),
                if userhandler s2 then emit (OnSuccess (Some result)) s2 else s2)))"

subsection \<open>\<open>getSession\<close>\<close>

definition notifySuccess :: "CognitoAuthSession option \<Rightarrow> CognitoAuth \<Rightarrow> CognitoAuth" where
  "notifySuccess r s = (if userhandler s then emit (OnSuccess r) s else s)"

definition getSession ::
  "env \<Rightarrow> CognitoAuth \<Rightarrow> (CognitoAuthSession option) completion \<times> CognitoAuth" where
  "getSession E s0 =
     (case signInUserSession s0 of
        None \<Rightarrow> (Threw TypeError, s0)
      | Some held \<Rightarrow>
          let tokenScopesInputSet = newSet (tokenScopesArray s0);
              cachedScopesSet = newSet (tokenScopes held)
          in (case getFQDNSignIn E s0 of
               (Inl e, s1) \<Rightarrow> (Threw e, s1)
             | (Inr URL, s1) \<Rightarrow>
                 if isValid E held then (Fulfilled (Some held), notifySuccess (Some held) s1)
                 else
                   let reloaded = getCachedSession s1;
                       s2 = s1\<lparr>signInUserSession := Some reloaded\<rparr>
                   in if \<not> compareSets tokenScopesInputSet cachedScopesSet then
                        (let cleared = reloaded
                               \<lparr>tokenScopes := tokenScopesArray s2,
                                idToken := newCognitoToken Undefined,
                                accessToken := newCognitoToken Undefined,
                                refreshToken := newCognitoRefreshToken Undefined\<rparr>;
                             s3 = launchUri URL (s2\<lparr>signInUserSession := Some cleared\<rparr>)
                         in (Fulfilled None, notifySuccess None s3))
                      else if isValid E reloaded then
                        (Fulfilled (Some reloaded), notifySuccess (Some reloaded) s2)
                      else if \<not> truthy (ofOption (getToken (refreshToken reloaded))) then
                        (Fulfilled None, notifySuccess None (launchUri URL s2))
                      else
                        (case refreshSession E (ofOption (getToken (refreshToken reloaded))) s2 of
                           (Fulfilled d, s3) \<Rightarrow>
                             (Fulfilled (signInUserSession s3),
                              notifySuccess (signInUserSession s3) s3)
                         | (Rejected e, s3) \<Rightarrow> (Rejected e, s3)
                         | (Threw e, s3) \<Rightarrow> (Threw e, s3)
                         | (NotAPromise, s3) \<Rightarrow> (Threw TypeError, s3)
                         | (Pending, s3) \<Rightarrow> (Pending, s3))))"

subsection \<open>The constructor\<close>

record CognitoAuthOptions =
  ClientId :: jsval
  AppWebDomain :: jsval
  TokenScopesArray :: "string list option"
  RedirectUriSignIn :: jsval
  RedirectUriSignOut :: jsval
  IdentityProvider :: jsval
  UserPoolId :: jsval
  AdvancedSecurityDataCollectionFlag :: "bool option"
  Storage :: "(string \<rightharpoonup> jsval) option"

text \<open>
  An omitted field is \<open>Undefined\<close> or \<open>None\<close>. \<open>helperStorage\<close> is what
  \<open>new StorageHelper().getStorage()\<close> gives when no storage is passed.
\<close>

definition constructor ::
  "(string \<rightharpoonup> jsval) \<Rightarrow> CognitoAuthOptions \<Rightarrow> bool \<Rightarrow> errval + CognitoAuth" where
  "constructor helperStorage data implicitFlow =
     (if \<not> truthy (ClientId data) \<or> \<not> truthy (AppWebDomain data)
         \<or> \<not> truthy (RedirectUriSignIn data) \<or> \<not> truthy (RedirectUriSignOut data)
      then Inl (ErrorOf PARAMETERERROR)
      else
        case TokenScopesArray data of
          None \<Rightarrow> Inl (ErrorOf SCOPETYPEERROR)
        | Some scopes \<Rightarrow>
            let s0 = \<lparr>username = Undefined,
                      clientId = toString (ClientId data),
                      appWebDomain = toString (AppWebDomain data),
                      tokenScopesArray = scopes,
                      redirectUriSignIn = toString (RedirectUriSignIn data),
                      redirectUriSignOut = toString (RedirectUriSignOut data),
                      identityProvider = IdentityProvider data,
                      userPoolId = Undefined,
                      advancedSecurityDataCollectionFlag = False,
                      storage = (case Storage data of Some st \<Rightarrow> st | None \<Rightarrow> helperStorage),
                      signInUserSession = None,
                      state = Undefined,
                      userhandler = False,
                      responseType = (if implicitFlow then TOKEN else CODE),
                      drawn = 0,
                      trace = []\<rparr>;
                s1 = s0\<lparr>username := getLastUser s0\<rparr>;
                s2 = s1\<lparr>userPoolId := UserPoolId data\<rparr>;
                s3 = s2\<lparr>signInUserSession :=
                          Some ((getCachedSession s2)\<lparr>tokenScopes := scopes\<rparr>)\<rparr>
            in Inr (s3\<lparr>advancedSecurityDataCollectionFlag :=
                          (AdvancedSecurityDataCollectionFlag data = Some True)\<rparr>))"

section \<open>Reading the trace, and sample inputs\<close>

text \<open>The requests sent to the token endpoint, in order.\<close>

fun posted :: "event list \<Rightarrow> grant list" where
  "posted [] = []"
| "posted (Posted g # es) = g # posted es"
| "posted (Launched u # es) = posted es"
| "posted (OnSuccess r # es) = posted es"
| "posted (OnFailure e # es) = posted es"

text \<open>The URIs handed to the launcher, in order.\<close>

fun launched :: "event list \<Rightarrow> string list" where
  "launched [] = []"
| "launched (Launched u # es) = u # launched es"
| "launched (Posted g # es) = launched es"
| "launched (OnSuccess r # es) = launched es"
| "launched (OnFailure e # es) = launched es"

text \<open>
  A sample environment: the clock at 1000, two token strings that decode (one expired, one
  not), no security data collector, an endpoint that answers a refresh request with two new
  tokens and an authorization code with an error, and sample values for the constants.
\<close>

definition sampleTokens :: jsmap where
  "sampleTokens = [Str ''id_token'' \<mapsto> Str ''new'', Str ''access_token'' \<mapsto> Str ''new'']"

definition sampleEnv :: env where
  "sampleEnv =
     \<lparr>now = 1000,
      jwtExpiration = (\<lambda>t. if t = ''old'' then Some 500 else if t = ''new'' then Some 2000
                           else None),
      jwtSubject = (\<lambda>t. if t = ''old'' \<or> t = ''new'' then Some ''alice'' else None),
      securityData = None,
      draws = (\<lambda>k. k),
      makePostCode = (\<lambda>g. case g of
          RefreshGrant r \<Rightarrow> Responded sampleTokens
        | AuthorizationCode c \<Rightarrow> Responded [Str ''error'' \<mapsto> Str ''invalid_grant'']),
      STATEORIGINSTRING = ''0123456789abcdefghijklmnopqrstuvwxyzABCDEFGHIJKLMNOPQRSTUVWXYZ'',
      DOMAIN_PATH_SIGNOUT = ''logout'',
      DOMAIN_QUERY_PARAM_SIGNOUT_URI = ''logout_uri'',
      splitREGEX1 = split (CHR ''#''),
      splitREGEX2 = split (CHR ''='')\<rparr>"

text \<open>
  A sample storage: \<open>alice\<close> signed in last with client \<open>c1\<close>; her cached tokens have
  expired, she has a refresh token, and her cached scope is \<open>openid\<close> alone. \<open>bob\<close> has
  an entry too.
\<close>

definition sampleStorage :: "string \<rightharpoonup> jsval" where
  "sampleStorage =
     [''CognitoIdentityServiceProvider.c1.LastAuthUser'' \<mapsto> Str ''alice'',
      ''CognitoIdentityServiceProvider.c1.alice.idToken'' \<mapsto> Str ''old'',
      ''CognitoIdentityServiceProvider.c1.alice.accessToken'' \<mapsto> Str ''old'',
      ''CognitoIdentityServiceProvider.c1.alice.refreshToken'' \<mapsto> Str ''r1'',
      ''CognitoIdentityServiceProvider.c1.alice.tokenScopesString'' \<mapsto> Str ''openid'',
      ''CognitoIdentityServiceProvider.c1.bob.idToken'' \<mapsto> Str ''bobs'']"

text \<open>Sample options: the application now asks for the scopes \<open>openid\<close> and \<open>email\<close>.\<close>

definition sampleOptions :: CognitoAuthOptions where
  "sampleOptions =
     \<lparr>ClientId = Str ''c1'',
      AppWebDomain = Str ''auth.example.com'',
      TokenScopesArray = Some [''openid'', ''email''],
      RedirectUriSignIn = Str ''https://app/cb'',
      RedirectUriSignOut = Str ''https://app/out'',
      IdentityProvider = Undefined,
      UserPoolId = Undefined,
      AdvancedSecurityDataCollectionFlag = None,
      Storage = Some sampleStorage\<rparr>"

definition sampleSession :: CognitoAuthSession where
  "sampleSession =
     \<lparr>idToken = CognitoToken (Some ''old''), accessToken = CognitoToken (Some ''old''),
      refreshToken = CognitoRefreshToken (Some ''r1''),
      tokenScopes = [''openid'', ''email''], csrfState = Null\<rparr>"

text \<open>
  The object that \<open>new CognitoAuth(sampleOptions)\<close> builds (lemma
  \<open>constructor_sampleOptions\<close> below), and the one built for the code grant flow.
\<close>

definition sampleAuth :: CognitoAuth where
  "sampleAuth =
     \<lparr>username = Str ''alice'',
      clientId = ''c1'',
      appWebDomain = ''auth.example.com'',
      tokenScopesArray = [''openid'', ''email''],
      redirectUriSignIn = ''https://app/cb'',
      redirectUriSignOut = ''https://app/out'',
      identityProvider = Undefined,
      userPoolId = Undefined,
      advancedSecurityDataCollectionFlag = False,
      storage = sampleStorage,
      signInUserSession = Some sampleSession,
      state = Undefined,
      userhandler = False,
      responseType = TOKEN,
      drawn = 0,
      trace = []\<rparr>"

definition sampleCodeAuth :: CognitoAuth where
  "sampleCodeAuth = sampleAuth\<lparr>responseType := CODE\<rparr>"

section \<open>Scope-set comparison\<close>

lemma set_newSet: "set (newSet xs) = set xs"
  by (induction xs) auto

lemma distinct_newSet: "distinct (newSet xs)"
  by (induction xs) (auto simp: set_newSet)

lemma hasAll_subset: "hasAll s1 s2 = (set s1 \<subseteq> set s2)"
  by (induction s1) auto

lemma compareSets_distinct:
  assumes "distinct s1" "distinct s2"
  shows "compareSets s1 s2 = (set s1 = set s2)"
proof -
  have c1: "card (set s1) = length s1" and c2: "card (set s2) = length s2"
    using assms by (simp_all add: distinct_card)
  show ?thesis
  proof (cases "length s1 = length s2")
    case True
    have "set s1 \<subseteq> set s2 \<Longrightarrow> set s1 = set s2"
      using True c1 c2 by (metis List.finite_set card_subset_eq)
    then show ?thesis using True by (auto simp: compareSets_def hasAll_subset)
  next
    case False
    then show ?thesis using c1 c2 by (auto simp: compareSets_def)
  qed
qed

text \<open>
  C2. On two sets built from arrays, \<open>compareSets\<close> is true exactly when the sets have the
  same number of elements and the same members, whatever the order (and the repetitions) of
  the arrays they were built from.
\<close>

theorem compareSets_set_equality:
  "compareSets (newSet xs) (newSet ys) = (card (set xs) = card (set ys) \<and> set xs = set ys)"
  using compareSets_distinct [OF distinct_newSet distinct_newSet, of xs ys]
  by (auto simp: set_newSet)

text \<open>The two sets of the specification: \<open>{a,b}\<close> equals \<open>{b,a}\<close> and differs from \<open>{a}\<close>.\<close>

theorem compareSets_set_equality_witness:
  "compareSets (newSet [''a'', ''b'']) (newSet [''b'', ''a''])
   \<and> \<not> compareSets (newSet [''a'', ''b'']) (newSet [''a''])
   \<and> compareSets (newSet [''a'', ''b'', ''a'']) (newSet [''b'', ''a''])"
  using compareSets_set_equality [of "[''a'', ''b'']" "[''b'', ''a'']"]
        compareSets_set_equality [of "[''a'', ''b'']" "[''a'']"]
        compareSets_set_equality [of "[''a'', ''b'', ''a'']" "[''b'', ''a'']"]
  by (simp add: insert_commute)

section \<open>Refresh\<close>

lemma posted_append: "posted (xs @ ys) = posted xs @ posted ys"
  by (induction xs rule: posted.induct) auto

lemma launched_append: "launched (xs @ ys) = launched xs @ launched ys"
  by (induction xs rule: launched.induct) auto

text \<open>
  C3. Under the implicit response type \<open>refreshSession\<close> fails at once with the refresh-type
  error: with a registered handler the error goes to \<open>onFailure\<close> (and the call returns
  \<open>undefined\<close>), without one the call returns a rejected promise. Nothing is sent to the
  token endpoint, whose answer the result does not depend on, and nothing but the trace
  changes.
\<close>

theorem refreshSession_implicit:
  assumes "responseType s = TOKEN"
  shows "fst (refreshSession E rt s) =
           (if userhandler s then NotAPromise else Rejected (Message REFRESHTYPEERROR))
         \<and> trace (snd (refreshSession E rt s)) =
           (if userhandler s then trace s @ [OnFailure (Message REFRESHTYPEERROR)] else trace s)
         \<and> posted (trace (snd (refreshSession E rt s))) = posted (trace s)
         \<and> (snd (refreshSession E rt s)) \<lparr>trace := trace s\<rparr> = s
         \<and> refreshSession (E\<lparr>makePostCode := net\<rparr>) rt s = refreshSession E rt s"
  using assms by (simp add: refreshSession_def emit_def posted_append)

theorem refreshSession_implicit_witness:
  "responseType sampleAuth = TOKEN
   \<and> fst (refreshSession sampleEnv (Str ''r1'') sampleAuth) = Rejected (Message REFRESHTYPEERROR)
   \<and> posted (trace (snd (refreshSession sampleEnv (Str ''r1'') sampleAuth))) = []
   \<and> fst (refreshSession sampleEnv (Str ''r1'') (sampleAuth\<lparr>userhandler := True\<rparr>)) = NotAPromise
   \<and> trace (snd (refreshSession sampleEnv (Str ''r1'') (sampleAuth\<lparr>userhandler := True\<rparr>)))
       = [OnFailure (Message REFRESHTYPEERROR)]"
  using refreshSession_implicit [of sampleAuth sampleEnv "Str ''r1''"]
        refreshSession_implicit [of "sampleAuth\<lparr>userhandler := True\<rparr>" sampleEnv "Str ''r1''"]
  by (simp add: sampleAuth_def)

section \<open>The sample object\<close>

lemma constructor_sampleOptions:
  "constructor Map.empty sampleOptions True = Inr sampleAuth
   \<and> constructor Map.empty sampleOptions False = Inr sampleCodeAuth"
  apply (simp add: constructor_def sampleOptions_def Let_def getLastUser_def lastUserKey_def
      keyPrefix_def getItem_def)
  apply (simp add: sampleStorage_def getCachedSession_def userKey_def keyPrefix_def getItem_def
      newCognitoToken_def newCognitoRefreshToken_def Let_def)
  apply (simp add: sampleCodeAuth_def sampleAuth_def sampleSession_def sampleStorage_def)
  done

section \<open>Cache keys\<close>

lemma dot_suffix_unique:
  assumes "CHR ''.'' \<notin> set f" and "CHR ''.'' \<notin> set g"
    and "a @ ''.'' @ f = b @ ''.'' @ g"
  shows "a = b \<and> f = g"
proof -
  have "rev f @ CHR ''.'' # rev a = rev g @ CHR ''.'' # rev b"
    using arg_cong [OF assms(3), of rev] by simp
  then have "takeWhile (\<lambda>c. c \<noteq> CHR ''.'') (rev f @ CHR ''.'' # rev a)
             = takeWhile (\<lambda>c. c \<noteq> CHR ''.'') (rev g @ CHR ''.'' # rev b)"
    by simp
  moreover have "takeWhile (\<lambda>c. c \<noteq> CHR ''.'') (rev f @ CHR ''.'' # rev a) = rev f"
    using assms(1) by (auto simp add: takeWhile_tail)
  moreover have "takeWhile (\<lambda>c. c \<noteq> CHR ''.'') (rev g @ CHR ''.'' # rev b) = rev g"
    using assms(2) by (auto simp add: takeWhile_tail)
  ultimately have "f = g" by simp
  with assms(3) show ?thesis by simp
qed

lemma userKey_eq_iff:
  assumes "CHR ''.'' \<notin> set f" and "CHR ''.'' \<notin> set g"
  shows "(userKey s u f = userKey s v g) = (toString u = toString v \<and> f = g)"
proof
  assume "userKey s u f = userKey s v g"
  then have "(keyPrefix s @ ''.'' @ toString u) @ ''.'' @ f
             = (keyPrefix s @ ''.'' @ toString v) @ ''.'' @ g"
    by (simp add: userKey_def)
  from dot_suffix_unique [OF assms this] show "toString u = toString v \<and> f = g"
    by simp
next
  assume "toString u = toString v \<and> f = g"
  then show "userKey s u f = userKey s v g"
    by (simp add: userKey_def)
qed

lemma userKey_neq_lastUserKey:
  assumes "CHR ''.'' \<notin> set f" and "f \<noteq> ''LastAuthUser''"
  shows "userKey s u f \<noteq> lastUserKey s"
proof
  assume "userKey s u f = lastUserKey s"
  then have "(keyPrefix s @ ''.'' @ toString u) @ ''.'' @ f
             = keyPrefix s @ ''.'' @ ''LastAuthUser''"
    by (simp add: userKey_def lastUserKey_def)
  from dot_suffix_unique [OF assms(1) _ this] have "f = ''LastAuthUser''"
    by simp
  with assms(2) show False by simp
qed

lemmas key_simps =
  userKey_eq_iff userKey_neq_lastUserKey userKey_neq_lastUserKey [symmetric]

section \<open>Persisting the session\<close>

lemma cacheTokensScopes_Some:
  assumes "signInUserSession s = Some sess"
  shows "cacheTokensScopes E s =
     Inr (s\<lparr>username := getUsername E (accessToken sess),
            storage := (storage s)
              (userKey s (getUsername E (accessToken sess)) ''idToken''
                 \<mapsto> ofOption (getJwtToken (idToken sess)),
               userKey s (getUsername E (accessToken sess)) ''accessToken''
                 \<mapsto> ofOption (getJwtToken (accessToken sess)),
               userKey s (getUsername E (accessToken sess)) ''refreshToken''
                 \<mapsto> ofOption (getToken (refreshToken sess)),
               lastUserKey s \<mapsto> getUsername E (accessToken sess),
               userKey s (getUsername E (accessToken sess)) ''tokenScopesString''
                 \<mapsto> Str (join '' '' (tokenScopes sess)))\<rparr>)"
  using assms by (simp add: cacheTokensScopes_def setItem_def Let_def)

lemma cacheTokensScopes_ignores_username:
  "cacheTokensScopes E (s\<lparr>username := v\<rparr>) = cacheTokensScopes E s"
  by (simp add: cacheTokensScopes_def setItem_def Let_def userKey_def keyPrefix_def lastUserKey_def
      split: option.splits)

text \<open>
  C9. \<open>cacheTokensScopes\<close> takes the user name from the subject of the held session's
  access token and from nothing else: whatever \<open>username\<close> the object held before (the
  value a client sets with \<open>setUsername\<close>) the outcome is the same. It stores the id
  token, the access token, the refresh token and the space-joined scopes under that user
  name and sets the client's \<open>LastAuthUser\<close> entry to that user name; no other key of
  the storage and no other field of the object changes.
\<close>

theorem cacheTokensScopes_username_of_access_token:
  assumes "signInUserSession s = Some sess"
  shows "\<exists>s'. cacheTokensScopes E s = Inr s'
      \<and> username s' = getUsername E (accessToken sess)
      \<and> (\<forall>v. cacheTokensScopes E (s\<lparr>username := v\<rparr>) = Inr s')
      \<and> storage s' (userKey s (username s') ''idToken'')
          = Some (ofOption (getJwtToken (idToken sess)))
      \<and> storage s' (userKey s (username s') ''accessToken'')
          = Some (ofOption (getJwtToken (accessToken sess)))
      \<and> storage s' (userKey s (username s') ''refreshToken'')
          = Some (ofOption (getToken (refreshToken sess)))
      \<and> storage s' (userKey s (username s') ''tokenScopesString'')
          = Some (Str (join '' '' (tokenScopes sess)))
      \<and> storage s' (lastUserKey s) = Some (username s')
      \<and> (\<forall>k. k \<notin> {userKey s (username s') ''idToken'', userKey s (username s') ''accessToken'',
                    userKey s (username s') ''refreshToken'',
                    userKey s (username s') ''tokenScopesString'', lastUserKey s}
             \<longrightarrow> storage s' k = storage s k)
      \<and> s'\<lparr>username := username s, storage := storage s\<rparr> = s"
  by (simp add: cacheTokensScopes_ignores_username cacheTokensScopes_Some [OF assms]
      getItem_def key_simps)

theorem cacheTokensScopes_username_of_access_token_witness:
  "signInUserSession sampleAuth = Some sampleSession
   \<and> getUsername sampleEnv (accessToken sampleSession) = Str ''alice''
   \<and> (\<exists>s'. cacheTokensScopes sampleEnv (sampleAuth\<lparr>username := Str ''mallory''\<rparr>) = Inr s'
          \<and> username s' = Str ''alice''
          \<and> storage s' ''CognitoIdentityServiceProvider.c1.LastAuthUser'' = Some (Str ''alice'')
          \<and> storage s' ''CognitoIdentityServiceProvider.c1.alice.tokenScopesString''
              = Some (Str ''openid email''))"
proof -
  have h: "signInUserSession sampleAuth = Some sampleSession"
    by (simp add: sampleAuth_def)
  have u: "getUsername sampleEnv (accessToken sampleSession) = Str ''alice''"
    by code_simp
  have k: "lastUserKey sampleAuth = ''CognitoIdentityServiceProvider.c1.LastAuthUser''"
    "userKey sampleAuth (Str ''alice'') ''tokenScopesString''
       = ''CognitoIdentityServiceProvider.c1.alice.tokenScopesString''"
    "join '' '' (tokenScopes sampleSession) = ''openid email''"
    by code_simp+
  from cacheTokensScopes_username_of_access_token [OF h, of sampleEnv]
  obtain s' where "cacheTokensScopes sampleEnv sampleAuth = Inr s'"
    and "username s' = getUsername sampleEnv (accessToken sampleSession)"
    and "\<forall>v. cacheTokensScopes sampleEnv (sampleAuth\<lparr>username := v\<rparr>) = Inr s'"
    and "storage s' (userKey sampleAuth (username s') ''tokenScopesString'')
          = Some (Str (join '' '' (tokenScopes sampleSession)))"
    and "storage s' (lastUserKey sampleAuth) = Some (username s')"
    by blast
  then show ?thesis using h u k by auto
qed

section \<open>Refresh under the code grant flow\<close>

lemma CODE_neq_TOKEN: "CODE \<noteq> TOKEN"
  by (simp add: CODE_def TOKEN_def)

text \<open>
  C4. Under the code grant flow, when the exchange answers without an \<open>error\<close> field and a
  session is held, \<open>refreshSession\<close> is fulfilled with the held session in which the id
  token and the access token are replaced by those of the answer (each only if the answer
  carries it); the refresh token, the scopes and the state of the session are as before. The
  updated session is held and persisted: the user name becomes the subject of its access
  token, and under that user name the storage holds its id token, its access token, the
  unchanged refresh token and the space-joined scopes, with the client's \<open>LastAuthUser\<close>
  entry set to that user name; every other key of the storage and every other field of the
  object is as before. Beyond the request itself the only effect on the collaborators is
  the handler's \<open>onSuccess\<close>, if registered.
\<close>

theorem refreshSession_code_success:
  assumes "responseType s = CODE"
    and "makePostCode E (RefreshGrant rt) = Responded m"
    and "\<not> has m ERROR"
    and "signInUserSession s = Some sess"
  shows "\<exists>sess' s'. refreshSession E rt s = (Fulfilled (Some sess'), s')
      \<and> sess' = sess\<lparr>idToken := (if has m IDTOKEN then newCognitoToken (get m IDTOKEN)
                                  else idToken sess),
                      accessToken := (if has m ACCESSTOKEN then newCognitoToken (get m ACCESSTOKEN)
                                      else accessToken sess)\<rparr>
      \<and> refreshToken sess' = refreshToken sess
      \<and> tokenScopes sess' = tokenScopes sess
      \<and> csrfState sess' = csrfState sess
      \<and> signInUserSession s' = Some sess'
      \<and> cacheTokensScopes E (s\<lparr>signInUserSession := Some sess'\<rparr>) = Inr (s'\<lparr>trace := trace s\<rparr>)
      \<and> username s' = getUsername E (accessToken sess')
      \<and> storage s' (userKey s (username s') ''idToken'')
          = Some (ofOption (getJwtToken (idToken sess')))
      \<and> storage s' (userKey s (username s') ''accessToken'')
          = Some (ofOption (getJwtToken (accessToken sess')))
      \<and> storage s' (userKey s (username s') ''refreshToken'')
          = Some (ofOption (getToken (refreshToken sess)))
      \<and> storage s' (userKey s (username s') ''tokenScopesString'')
          = Some (Str (join '' '' (tokenScopes sess)))
      \<and> storage s' (lastUserKey s) = Some (username s')
      \<and> (\<forall>k. k \<notin> {userKey s (username s') ''idToken'', userKey s (username s') ''accessToken'',
                    userKey s (username s') ''refreshToken'',
                    userKey s (username s') ''tokenScopesString'', lastUserKey s}
             \<longrightarrow> storage s' k = storage s k)
      \<and> s'\<lparr>signInUserSession := signInUserSession s, username := username s,
              storage := storage s, trace := trace s\<rparr> = s
      \<and> trace s' = trace s @ Posted (RefreshGrant rt)
                      # (if userhandler s then [OnSuccess (Some sess')] else [])"
proof -
  let ?sess = "sess\<lparr>idToken := (if has m IDTOKEN then newCognitoToken (get m IDTOKEN)
                                  else idToken sess),
                      accessToken := (if has m ACCESSTOKEN then newCognitoToken (get m ACCESSTOKEN)
                                      else accessToken sess)\<rparr>"
  let ?u = "getUsername E (accessToken ?sess)"
  let ?st = "(storage s)
              (userKey s ?u ''idToken'' \<mapsto> ofOption (getJwtToken (idToken ?sess)),
               userKey s ?u ''accessToken'' \<mapsto> ofOption (getJwtToken (accessToken ?sess)),
               userKey s ?u ''refreshToken'' \<mapsto> ofOption (getToken (refreshToken ?sess)),
               lastUserKey s \<mapsto> ?u,
               userKey s ?u ''tokenScopesString'' \<mapsto> Str (join '' '' (tokenScopes ?sess)))"
  let ?s2 = "s\<lparr>signInUserSession := Some ?sess, username := ?u, storage := ?st\<rparr>"
  let ?s' = "?s2\<lparr>trace := trace s @ Posted (RefreshGrant rt)
                      # (if userhandler s then [OnSuccess (Some ?sess)] else [])\<rparr>"
  have r: "refreshSession E rt s = (Fulfilled (Some ?sess), ?s')"
    using assms
    by (simp add: refreshSession_def CODE_neq_TOKEN Let_def emit_def cacheTokensScopes_Some
        userKey_def lastUserKey_def keyPrefix_def)
  have c: "cacheTokensScopes E (s\<lparr>signInUserSession := Some ?sess\<rparr>) = Inr (?s'\<lparr>trace := trace s\<rparr>)"
    by (simp add: cacheTokensScopes_Some userKey_def lastUserKey_def keyPrefix_def)
  have st: "storage ?s' = ?st" and un: "username ?s' = ?u"
    by simp_all
  have w: "storage ?s' (userKey s (username ?s') ''idToken'')
          = Some (ofOption (getJwtToken (idToken ?sess)))"
     "storage ?s' (userKey s (username ?s') ''accessToken'')
          = Some (ofOption (getJwtToken (accessToken ?sess)))"
     "storage ?s' (userKey s (username ?s') ''refreshToken'')
          = Some (ofOption (getToken (refreshToken sess)))"
     "storage ?s' (userKey s (username ?s') ''tokenScopesString'')
          = Some (Str (join '' '' (tokenScopes sess)))"
     "storage ?s' (lastUserKey s) = Some (username ?s')"
    unfolding st un by (simp_all add: key_simps)
  have o: "\<forall>k. k \<notin> {userKey s (username ?s') ''idToken'', userKey s (username ?s') ''accessToken'',
                    userKey s (username ?s') ''refreshToken'',
                    userKey s (username ?s') ''tokenScopesString'', lastUserKey s}
             \<longrightarrow> storage ?s' k = storage s k"
    unfolding st un by simp
  have f: "?s'\<lparr>signInUserSession := signInUserSession s, username := username s,
              storage := storage s, trace := trace s\<rparr> = s"
    by simp
  have t: "trace ?s' = trace s @ Posted (RefreshGrant rt)
                      # (if userhandler s then [OnSuccess (Some ?sess)] else [])"
    by simp
  have g: "refreshToken ?sess = refreshToken sess" "tokenScopes ?sess = tokenScopes sess"
    "csrfState ?sess = csrfState sess" "signInUserSession ?s' = Some ?sess"
    by simp_all
  show ?thesis
    apply (rule exI [of _ ?sess])
    apply (rule exI [of _ ?s'])
    apply (intro conjI)
    apply (rule r)
    apply (rule refl)
    apply (rule g(1))
    apply (rule g(2))
    apply (rule g(3))
    apply (rule g(4))
    apply (rule c)
    apply (rule un)
    apply (rule w(1))
    apply (rule w(2))
    apply (rule w(3))
    apply (rule w(4))
    apply (rule w(5))
    apply (rule o)
    apply (rule f)
    apply (rule t)
    done
qed


theorem refreshSession_code_success_witness:
  "responseType sampleCodeAuth = CODE
   \<and> makePostCode sampleEnv (RefreshGrant (Str ''r1'')) = Responded sampleTokens
   \<and> \<not> has sampleTokens ERROR
   \<and> signInUserSession sampleCodeAuth = Some sampleSession
   \<and> (\<exists>s'. refreshSession sampleEnv (Str ''r1'') sampleCodeAuth
          = (Fulfilled (Some \<lparr>idToken = CognitoToken (Some ''new''),
                                accessToken = CognitoToken (Some ''new''),
                                refreshToken = CognitoRefreshToken (Some ''r1''),
                                tokenScopes = [''openid'', ''email''], csrfState = Null\<rparr>), s')
        \<and> username s' = Str ''alice''
        \<and> storage s' ''CognitoIdentityServiceProvider.c1.alice.idToken'' = Some (Str ''new'')
        \<and> storage s' ''CognitoIdentityServiceProvider.c1.alice.accessToken'' = Some (Str ''new'')
        \<and> storage s' ''CognitoIdentityServiceProvider.c1.alice.refreshToken'' = Some (Str ''r1'')
        \<and> storage s' ''CognitoIdentityServiceProvider.c1.alice.tokenScopesString''
            = Some (Str ''openid email'')
        \<and> storage s' ''CognitoIdentityServiceProvider.c1.LastAuthUser'' = Some (Str ''alice'')
        \<and> trace s' = [Posted (RefreshGrant (Str ''r1''))])"
proof -
  have h: "responseType sampleCodeAuth = CODE"
    "makePostCode sampleEnv (RefreshGrant (Str ''r1'')) = Responded sampleTokens"
    "\<not> has sampleTokens ERROR"
    "signInUserSession sampleCodeAuth = Some sampleSession"
    by (simp_all add: sampleCodeAuth_def sampleAuth_def sampleEnv_def sampleTokens_def has_def
        ERROR_def)
  have e: "sampleSession
           \<lparr>idToken := (if has sampleTokens IDTOKEN then newCognitoToken (get sampleTokens IDTOKEN)
                        else idToken sampleSession),
            accessToken := (if has sampleTokens ACCESSTOKEN
                            then newCognitoToken (get sampleTokens ACCESSTOKEN)
                            else accessToken sampleSession)\<rparr>
      = \<lparr>idToken = CognitoToken (Some ''new''), accessToken = CognitoToken (Some ''new''),
         refreshToken = CognitoRefreshToken (Some ''r1''),
         tokenScopes = [''openid'', ''email''], csrfState = Null\<rparr>"
    by (simp add: sampleTokens_def has_def get_def IDTOKEN_def ACCESSTOKEN_def
        newCognitoToken_def sampleSession_def)
  have v: "getUsername sampleEnv (CognitoToken (Some ''new'')) = Str ''alice''"
    "userKey sampleCodeAuth (Str ''alice'') ''idToken''
       = ''CognitoIdentityServiceProvider.c1.alice.idToken''"
    "userKey sampleCodeAuth (Str ''alice'') ''accessToken''
       = ''CognitoIdentityServiceProvider.c1.alice.accessToken''"
    "userKey sampleCodeAuth (Str ''alice'') ''refreshToken''
       = ''CognitoIdentityServiceProvider.c1.alice.refreshToken''"
    "userKey sampleCodeAuth (Str ''alice'') ''tokenScopesString''
       = ''CognitoIdentityServiceProvider.c1.alice.tokenScopesString''"
    "lastUserKey sampleCodeAuth = ''CognitoIdentityServiceProvider.c1.LastAuthUser''"
    "join '' '' (tokenScopes sampleSession) = ''openid email''"
    "getToken (refreshToken sampleSession) = Some ''r1''"
    "userhandler sampleCodeAuth = False"
    "trace sampleCodeAuth = []"
    by code_simp+
  from refreshSession_code_success [OF h]
  obtain sess' s' where p: "refreshSession sampleEnv (Str ''r1'') sampleCodeAuth
                          = (Fulfilled (Some sess'), s')"
    "sess' = sampleSession
           \<lparr>idToken := (if has sampleTokens IDTOKEN then newCognitoToken (get sampleTokens IDTOKEN)
                        else idToken sampleSession),
            accessToken := (if has sampleTokens ACCESSTOKEN
                            then newCognitoToken (get sampleTokens ACCESSTOKEN)
                            else accessToken sampleSession)\<rparr>"
    "username s' = getUsername sampleEnv (accessToken sess')"
    "storage s' (userKey sampleCodeAuth (username s') ''idToken'')
          = Some (ofOption (getJwtToken (idToken sess')))"
    "storage s' (userKey sampleCodeAuth (username s') ''accessToken'')
          = Some (ofOption (getJwtToken (accessToken sess')))"
    "storage s' (userKey sampleCodeAuth (username s') ''refreshToken'')
          = Some (ofOption (getToken (refreshToken sampleSession)))"
    "storage s' (userKey sampleCodeAuth (username s') ''tokenScopesString'')
          = Some (Str (join '' '' (tokenScopes sampleSession)))"
    "storage s' (lastUserKey sampleCodeAuth) = Some (username s')"
    "trace s' = trace sampleCodeAuth @ Posted (RefreshGrant (Str ''r1''))
                      # (if userhandler sampleCodeAuth then [OnSuccess (Some sess')] else [])"
    by blast
  have s: "sess' = \<lparr>idToken = CognitoToken (Some ''new''), accessToken = CognitoToken (Some ''new''),
         refreshToken = CognitoRefreshToken (Some ''r1''),
         tokenScopes = [''openid'', ''email''], csrfState = Null\<rparr>"
    using p(2) by (simp only: e)
  have u: "username s' = Str ''alice''"
    using p(3) by (simp add: s v(1))
  have q: "refreshSession sampleEnv (Str ''r1'') sampleCodeAuth
          = (Fulfilled (Some \<lparr>idToken = CognitoToken (Some ''new''),
                                accessToken = CognitoToken (Some ''new''),
                                refreshToken = CognitoRefreshToken (Some ''r1''),
                                tokenScopes = [''openid'', ''email''], csrfState = Null\<rparr>), s')
        \<and> username s' = Str ''alice''
        \<and> storage s' ''CognitoIdentityServiceProvider.c1.alice.idToken'' = Some (Str ''new'')
        \<and> storage s' ''CognitoIdentityServiceProvider.c1.alice.accessToken'' = Some (Str ''new'')
        \<and> storage s' ''CognitoIdentityServiceProvider.c1.alice.refreshToken'' = Some (Str ''r1'')
        \<and> storage s' ''CognitoIdentityServiceProvider.c1.alice.tokenScopesString''
            = Some (Str ''openid email'')
        \<and> storage s' ''CognitoIdentityServiceProvider.c1.LastAuthUser'' = Some (Str ''alice'')
        \<and> trace s' = [Posted (RefreshGrant (Str ''r1''))]"
    using p(1) p(4-9) u by (simp add: s v)
  from h q show ?thesis
    by blast
qed

section \<open>The constructor\<close>

text \<open>
  C10. When \<open>TokenScopesArray\<close> is omitted the constructor throws: the scope-type error when
  the four required fields are present, the parameter error (raised first) otherwise. So
  no object is built without \<open>TokenScopesArray\<close>.
\<close>

theorem constructor_without_scopes:
  assumes "TokenScopesArray data = None"
  shows "constructor helperStorage data implicitFlow =
           Inl (ErrorOf (if truthy (ClientId data) \<and> truthy (AppWebDomain data)
                            \<and> truthy (RedirectUriSignIn data) \<and> truthy (RedirectUriSignOut data)
                         then SCOPETYPEERROR else PARAMETERERROR))"
  using assms by (simp add: constructor_def)

theorem constructor_without_scopes_witness:
  "TokenScopesArray (sampleOptions\<lparr>TokenScopesArray := None\<rparr>) = None
   \<and> truthy (ClientId sampleOptions) \<and> truthy (AppWebDomain sampleOptions)
   \<and> truthy (RedirectUriSignIn sampleOptions) \<and> truthy (RedirectUriSignOut sampleOptions)
   \<and> constructor Map.empty (sampleOptions\<lparr>TokenScopesArray := None\<rparr>) True
       = Inl (ErrorOf SCOPETYPEERROR)
   \<and> constructor Map.empty (sampleOptions\<lparr>TokenScopesArray := None\<rparr>) False
       = Inl (ErrorOf SCOPETYPEERROR)"
  using constructor_without_scopes [of "sampleOptions\<lparr>TokenScopesArray := None\<rparr>" Map.empty True]
        constructor_without_scopes [of "sampleOptions\<lparr>TokenScopesArray := None\<rparr>" Map.empty False]
  by (simp add: sampleOptions_def)

section \<open>The sign-in URL\<close>

lemma getUserContextData_state:
  "getUserContextData E (s\<lparr>state := v, drawn := n\<rparr>) = getUserContextData E s"
  by (simp add: getUserContextData_def Let_def split: option.splits)

lemma getFQDNSignIn_snd:
  "snd (getFQDNSignIn E s) =
     (if isNullish (state s)
      then s\<lparr>state := Str (generateRandomString STATELENGTH (STATEORIGINSTRING E)
                             (draws E) (drawn s)),
             drawn := drawn s + STATELENGTH\<rparr>
      else s)"
  by (simp add: getFQDNSignIn_def Let_def getSpaceSeperatedScopeString_def split: option.splits)




lemma getFQDNSignIn_Some:
  assumes "signInUserSession s = Some sess"
  shows "fst (getFQDNSignIn E s) =
     Inr (''https://'' @ appWebDomain s @ ''/oauth2/authorize''
          @ ''?redirect_uri='' @ encodeURIComponent (redirectUriSignIn s)
          @ ''&response_type='' @ responseType s
          @ ''&client_id='' @ clientId s
          @ ''&state='' @ toString (state (snd (getFQDNSignIn E s)))
          @ ''&scope='' @ encodeURIComponent (join '' '' (tokenScopes sess))
          @ (if truthy (identityProvider s)
             then ''&identity_provider='' @ toString (identityProvider s) else [])
          @ (if truthy (getUserContextData E s)
             then ''&userContextData='' @ toString (getUserContextData E s) else []))"
  using assms
  by (simp add: getFQDNSignIn_def Let_def getSpaceSeperatedScopeString_def
      getUserContextData_state
      DOMAIN_SCHEME_def COLONDOUBLESLASH_def SLASH_def DOMAIN_PATH_SIGNIN_def QUESTIONMARK_def
      DOMAIN_QUERY_PARAM_REDIRECT_URI_def EQUALSIGN_def AMPERSAND_def
      DOMAIN_QUERY_PARAM_RESPONSE_TYPE_def CLIENT_ID_def STATE_def SCOPE_def SPACE_def
      DOMAIN_QUERY_PARAM_IDENTITY_PROVIDER_def DOMAIN_QUERY_PARAM_USERCONTEXTDATA_def)



text \<open>
  C7. While a session is held, the sign-in URL is the scheme, the provider domain and the
  authorize path, followed by the query parameters in this order: \<open>redirect_uri\<close>
  (percent-encoded), \<open>response_type\<close>, \<open>client_id\<close>, \<open>state\<close>, \<open>scope\<close> (the held session's
  scopes joined by spaces, percent-encoded), then \<open>identity_provider\<close> if one is configured,
  then \<open>userContextData\<close> if the collector gives data.
\<close>

theorem getFQDNSignIn_url:
  assumes "signInUserSession s = Some sess"
  shows "fst (getFQDNSignIn E s) =
     Inr (''https://'' @ appWebDomain s @ ''/oauth2/authorize''
          @ ''?redirect_uri='' @ encodeURIComponent (redirectUriSignIn s)
          @ ''&response_type='' @ responseType s
          @ ''&client_id='' @ clientId s
          @ ''&state='' @ toString (state (snd (getFQDNSignIn E s)))
          @ ''&scope='' @ encodeURIComponent (join '' '' (tokenScopes sess))
          @ (if truthy (identityProvider s)
             then ''&identity_provider='' @ toString (identityProvider s) else [])
          @ (if truthy (getUserContextData E s)
             then ''&userContextData='' @ toString (getUserContextData E s) else []))"
  by (rule getFQDNSignIn_Some [OF assms])

theorem getFQDNSignIn_url_witness:
  "signInUserSession sampleAuth = Some sampleSession
   \<and> fst (getFQDNSignIn sampleEnv sampleAuth)
       = Inr ''https://auth.example.com/oauth2/authorize?redirect_uri=https%3A%2F%2Fapp%2Fcb&response_type=token&client_id=c1&state=0123456789abcdefghijklmnopqrstuv&scope=openid%20email''
   \<and> fst (getFQDNSignIn (sampleEnv\<lparr>securityData := Some (\<lambda>u p c. Str (''d-'' @ u @ ''-'' @ c))\<rparr>)
         (sampleAuth\<lparr>identityProvider := Str ''Facebook'', state := Str ''xyz'',
                     advancedSecurityDataCollectionFlag := True\<rparr>))
       = Inr ''https://auth.example.com/oauth2/authorize?redirect_uri=https%3A%2F%2Fapp%2Fcb&response_type=token&client_id=c1&state=xyz&scope=openid%20email&identity_provider=Facebook&userContextData=d-alice-c1''"
proof -
  have h: "signInUserSession sampleAuth = Some sampleSession"
    "signInUserSession (sampleAuth\<lparr>identityProvider := Str ''Facebook'', state := Str ''xyz'',
                     advancedSecurityDataCollectionFlag := True\<rparr>) = Some sampleSession"
    by (simp_all add: sampleAuth_def)
  have e: "''https://'' @ appWebDomain sampleAuth @ ''/oauth2/authorize''
          @ ''?redirect_uri='' @ encodeURIComponent (redirectUriSignIn sampleAuth)
          @ ''&response_type='' @ responseType sampleAuth
          @ ''&client_id='' @ clientId sampleAuth
          @ ''&state='' @ toString (state (snd (getFQDNSignIn sampleEnv sampleAuth)))
          @ ''&scope='' @ encodeURIComponent (join '' '' (tokenScopes sampleSession))
          @ (if truthy (identityProvider sampleAuth)
             then ''&identity_provider='' @ toString (identityProvider sampleAuth) else [])
          @ (if truthy (getUserContextData sampleEnv sampleAuth)
             then ''&userContextData='' @ toString (getUserContextData sampleEnv sampleAuth) else [])
     = ''https://auth.example.com/oauth2/authorize?redirect_uri=https%3A%2F%2Fapp%2Fcb&response_type=token&client_id=c1&state=0123456789abcdefghijklmnopqrstuv&scope=openid%20email''"
    by code_simp
  have e': "fst (getFQDNSignIn (sampleEnv\<lparr>securityData := Some (\<lambda>u p c. Str (''d-'' @ u @ ''-'' @ c))\<rparr>)
         (sampleAuth\<lparr>identityProvider := Str ''Facebook'', state := Str ''xyz'',
                     advancedSecurityDataCollectionFlag := True\<rparr>))
       = Inr ''https://auth.example.com/oauth2/authorize?redirect_uri=https%3A%2F%2Fapp%2Fcb&response_type=token&client_id=c1&state=xyz&scope=openid%20email&identity_provider=Facebook&userContextData=d-alice-c1''"
    by code_simp
  from getFQDNSignIn_url [OF h(1), of sampleEnv]
  have c: "fst (getFQDNSignIn sampleEnv sampleAuth)
       = Inr ''https://auth.example.com/oauth2/authorize?redirect_uri=https%3A%2F%2Fapp%2Fcb&response_type=token&client_id=c1&state=0123456789abcdefghijklmnopqrstuv&scope=openid%20email''"
    by (simp only: e)
  from h(1) c e' show ?thesis
    by blast
qed

section \<open>Sign-out\<close>

text \<open>
  C8, as the code has it. \<open>signOut\<close> sets the held session to \<open>null\<close> (it does not put an
  empty session object in its place), hands the sign-out URL (sign-out path, percent-encoded
  sign-out redirect URI, client id) to the launcher, and changes no field of the object but
  the session, the storage and the trace. When the current user name is set (it is a
  string), \<open>signOut\<close> removes exactly five keys from the storage (the id token, access
  token, refresh token and scopes of the current user name, and the client's
  \<open>LastAuthUser\<close> entry) and leaves the four entries of every other user name of this
  client as they are.
\<close>

theorem signOut_effects:
  "signInUserSession (signOut E s) = None
   \<and> trace (signOut E s) =
       trace s @ [Launched (''https://'' @ appWebDomain s @ ''/'' @ DOMAIN_PATH_SIGNOUT E @ ''?''
                            @ DOMAIN_QUERY_PARAM_SIGNOUT_URI E @ ''=''
                            @ encodeURIComponent (redirectUriSignOut s)
                            @ ''&client_id='' @ clientId s)]
   \<and> (signOut E s)\<lparr>signInUserSession := signInUserSession s, storage := storage s,
                     trace := trace s\<rparr> = s
   \<and> (\<forall>n. username s = Str n \<longrightarrow>
         storage (signOut E s) =
           (\<lambda>k. if k \<in> {userKey s (Str n) ''idToken'', userKey s (Str n) ''accessToken'',
                          userKey s (Str n) ''refreshToken'',
                          userKey s (Str n) ''tokenScopesString'', lastUserKey s}
                then None else storage s k)
         \<and> (\<forall>n' f. n' \<noteq> n
                \<longrightarrow> f \<in> {''idToken'', ''accessToken'', ''refreshToken'', ''tokenScopesString''}
                \<longrightarrow> storage (signOut E s) (userKey s (Str n') f)
                     = storage s (userKey s (Str n') f)))"
proof -
  have st: "storage (signOut E s) =
       (\<lambda>k. if k \<in> {userKey s (username s) ''idToken'', userKey s (username s) ''accessToken'',
                      userKey s (username s) ''refreshToken'',
                      userKey s (username s) ''tokenScopesString'', lastUserKey s}
            then None else storage s k)"
    by (auto simp add: signOut_def Let_def launchUri_def emit_def clearCachedTokensScopes_def
        removeItem_def userKey_def lastUserKey_def keyPrefix_def fun_eq_iff)
  have se: "signInUserSession (signOut E s) = None"
    by (simp add: signOut_def Let_def launchUri_def emit_def
        clearCachedTokensScopes_def removeItem_def)
  have tr: "trace (signOut E s) = trace s @ [Launched (getFQDNSignOut E s)]"
    by (simp add: signOut_def Let_def launchUri_def emit_def
        clearCachedTokensScopes_def removeItem_def)
  have url: "getFQDNSignOut E s = ''https://'' @ appWebDomain s @ ''/'' @ DOMAIN_PATH_SIGNOUT E
               @ ''?'' @ DOMAIN_QUERY_PARAM_SIGNOUT_URI E @ ''=''
               @ encodeURIComponent (redirectUriSignOut s) @ ''&client_id='' @ clientId s"
    by (simp add: getFQDNSignOut_def DOMAIN_SCHEME_def COLONDOUBLESLASH_def SLASH_def
        QUESTIONMARK_def EQUALSIGN_def AMPERSAND_def CLIENT_ID_def)
  have rest: "(signOut E s)\<lparr>signInUserSession := signInUserSession s, storage := storage s,
                     trace := trace s\<rparr> = s"
    by (simp add: signOut_def Let_def launchUri_def emit_def
        clearCachedTokensScopes_def removeItem_def)
  have named: "\<forall>n. username s = Str n \<longrightarrow>
         storage (signOut E s) =
           (\<lambda>k. if k \<in> {userKey s (Str n) ''idToken'', userKey s (Str n) ''accessToken'',
                          userKey s (Str n) ''refreshToken'',
                          userKey s (Str n) ''tokenScopesString'', lastUserKey s}
                then None else storage s k)
         \<and> (\<forall>n' f. n' \<noteq> n
                \<longrightarrow> f \<in> {''idToken'', ''accessToken'', ''refreshToken'', ''tokenScopesString''}
                \<longrightarrow> storage (signOut E s) (userKey s (Str n') f)
                     = storage s (userKey s (Str n') f))"
  proof (intro allI impI)
    fix n
    assume n: "username s = Str n"
    have a: "storage (signOut E s) =
           (\<lambda>k. if k \<in> {userKey s (Str n) ''idToken'', userKey s (Str n) ''accessToken'',
                          userKey s (Str n) ''refreshToken'',
                          userKey s (Str n) ''tokenScopesString'', lastUserKey s}
                then None else storage s k)"
      using st by (simp only: n)
    have b: "\<forall>n' f. n' \<noteq> n
                \<longrightarrow> f \<in> {''idToken'', ''accessToken'', ''refreshToken'', ''tokenScopesString''}
                \<longrightarrow> storage (signOut E s) (userKey s (Str n') f)
                     = storage s (userKey s (Str n') f)"
      unfolding a by (auto simp add: key_simps)
    from a b show "storage (signOut E s) =
           (\<lambda>k. if k \<in> {userKey s (Str n) ''idToken'', userKey s (Str n) ''accessToken'',
                          userKey s (Str n) ''refreshToken'',
                          userKey s (Str n) ''tokenScopesString'', lastUserKey s}
                then None else storage s k)
         \<and> (\<forall>n' f. n' \<noteq> n
                \<longrightarrow> f \<in> {''idToken'', ''accessToken'', ''refreshToken'', ''tokenScopesString''}
                \<longrightarrow> storage (signOut E s) (userKey s (Str n') f)
                     = storage s (userKey s (Str n') f))"
      by (rule conjI)
  qed
  have tr': "trace (signOut E s) =
       trace s @ [Launched (''https://'' @ appWebDomain s @ ''/'' @ DOMAIN_PATH_SIGNOUT E @ ''?''
                            @ DOMAIN_QUERY_PARAM_SIGNOUT_URI E @ ''=''
                            @ encodeURIComponent (redirectUriSignOut s)
                            @ ''&client_id='' @ clientId s)]"
    using tr by (simp only: url)
  from se tr' rest named show ?thesis
    by (intro conjI)
qed

theorem signOut_effects_witness:
  "username sampleAuth = Str ''alice'' \<and> ''bob'' \<noteq> ''alice''
   \<and> signInUserSession (signOut sampleEnv sampleAuth) = None
   \<and> storage (signOut sampleEnv sampleAuth) ''CognitoIdentityServiceProvider.c1.bob.idToken''
       = Some (Str ''bobs'')
   \<and> storage (signOut sampleEnv sampleAuth) ''CognitoIdentityServiceProvider.c1.alice.idToken''
       = None
   \<and> storage (signOut sampleEnv sampleAuth) ''CognitoIdentityServiceProvider.c1.alice.accessToken''
       = None
   \<and> storage (signOut sampleEnv sampleAuth) ''CognitoIdentityServiceProvider.c1.alice.refreshToken''
       = None
   \<and> storage (signOut sampleEnv sampleAuth)
         ''CognitoIdentityServiceProvider.c1.alice.tokenScopesString'' = None
   \<and> storage (signOut sampleEnv sampleAuth) ''CognitoIdentityServiceProvider.c1.LastAuthUser''
       = None
   \<and> trace (signOut sampleEnv sampleAuth)
       = [Launched ''https://auth.example.com/logout?logout_uri=https%3A%2F%2Fapp%2Fout&client_id=c1'']"
proof -
  note t = signOut_effects [of sampleEnv sampleAuth]
  have u: "username sampleAuth = Str ''alice''" "''bob'' \<noteq> ''alice''"
    by (simp_all add: sampleAuth_def)
  have se: "signInUserSession (signOut sampleEnv sampleAuth) = None"
    by (rule t [THEN conjunct1])
  note q = t [THEN conjunct2, THEN conjunct2, THEN conjunct2, rule_format, OF u(1)]
  have k: "userKey sampleAuth (Str ''bob'') ''idToken''
             = ''CognitoIdentityServiceProvider.c1.bob.idToken''"
    "storage sampleAuth ''CognitoIdentityServiceProvider.c1.bob.idToken'' = Some (Str ''bobs'')"
    by code_simp+
  have "storage (signOut sampleEnv sampleAuth) (userKey sampleAuth (Str ''bob'') ''idToken'')
          = storage sampleAuth (userKey sampleAuth (Str ''bob'') ''idToken'')"
    by (rule q [THEN conjunct2, rule_format]) (simp_all add: u)
  then have bob: "storage (signOut sampleEnv sampleAuth)
                    ''CognitoIdentityServiceProvider.c1.bob.idToken'' = Some (Str ''bobs'')"
    by (simp only: k)
  have st: "storage (signOut sampleEnv sampleAuth) =
       (\<lambda>k. if k \<in> {userKey sampleAuth (Str ''alice'') ''idToken'',
                      userKey sampleAuth (Str ''alice'') ''accessToken'',
                      userKey sampleAuth (Str ''alice'') ''refreshToken'',
                      userKey sampleAuth (Str ''alice'') ''tokenScopesString'',
                      lastUserKey sampleAuth}
            then None else storage sampleAuth k)"
    by (rule q [THEN conjunct1])
  have k': "userKey sampleAuth (Str ''alice'') ''idToken''
              = ''CognitoIdentityServiceProvider.c1.alice.idToken''"
    "userKey sampleAuth (Str ''alice'') ''accessToken''
              = ''CognitoIdentityServiceProvider.c1.alice.accessToken''"
    "userKey sampleAuth (Str ''alice'') ''refreshToken''
              = ''CognitoIdentityServiceProvider.c1.alice.refreshToken''"
    "userKey sampleAuth (Str ''alice'') ''tokenScopesString''
              = ''CognitoIdentityServiceProvider.c1.alice.tokenScopesString''"
    "lastUserKey sampleAuth = ''CognitoIdentityServiceProvider.c1.LastAuthUser''"
    by code_simp+
  have alice: "storage (signOut sampleEnv sampleAuth)
                 ''CognitoIdentityServiceProvider.c1.alice.idToken'' = None"
    "storage (signOut sampleEnv sampleAuth)
                 ''CognitoIdentityServiceProvider.c1.alice.accessToken'' = None"
    "storage (signOut sampleEnv sampleAuth)
                 ''CognitoIdentityServiceProvider.c1.alice.refreshToken'' = None"
    "storage (signOut sampleEnv sampleAuth)
                 ''CognitoIdentityServiceProvider.c1.alice.tokenScopesString'' = None"
    "storage (signOut sampleEnv sampleAuth)
                 ''CognitoIdentityServiceProvider.c1.LastAuthUser'' = None"
    by (simp_all add: st k')
  have e: "trace sampleAuth @ [Launched (''https://'' @ appWebDomain sampleAuth @ ''/''
              @ DOMAIN_PATH_SIGNOUT sampleEnv @ ''?'' @ DOMAIN_QUERY_PARAM_SIGNOUT_URI sampleEnv
              @ ''='' @ encodeURIComponent (redirectUriSignOut sampleAuth)
              @ ''&client_id='' @ clientId sampleAuth)]
           = [Launched ''https://auth.example.com/logout?logout_uri=https%3A%2F%2Fapp%2Fout&client_id=c1'']"
    by code_simp
  have "trace (signOut sampleEnv sampleAuth) =
       trace sampleAuth @ [Launched (''https://'' @ appWebDomain sampleAuth @ ''/''
              @ DOMAIN_PATH_SIGNOUT sampleEnv @ ''?'' @ DOMAIN_QUERY_PARAM_SIGNOUT_URI sampleEnv
              @ ''='' @ encodeURIComponent (redirectUriSignOut sampleAuth)
              @ ''&client_id='' @ clientId sampleAuth)]"
    by (rule t [THEN conjunct2, THEN conjunct1])
  then have tr: "trace (signOut sampleEnv sampleAuth)
       = [Launched ''https://auth.example.com/logout?logout_uri=https%3A%2F%2Fapp%2Fout&client_id=c1'']"
    by (simp only: e)
  from u se bob alice tr show ?thesis
    by blast
qed

text \<open>
  C8 as stated fails in two ways. After \<open>signOut\<close> the held session is \<open>null\<close>, not an
  empty session object. And while no user name is set, the keys removed are those built
  from the text \<open>undefined\<close>: the entries of a user of that name are removed, though that
  user is not the current one.
\<close>

theorem signOut_session_not_empty:
  "signInUserSession (signOut sampleEnv sampleAuth) = None
   \<and> signInUserSession (signOut sampleEnv sampleAuth) \<noteq> Some newCognitoAuthSession
   \<and> username (sampleAuth\<lparr>username := Undefined,
         storage := [''CognitoIdentityServiceProvider.c1.undefined.idToken'' \<mapsto> Str ''t'']\<rparr>)
       \<noteq> Str ''undefined''
   \<and> storage (signOut sampleEnv (sampleAuth\<lparr>username := Undefined,
         storage := [''CognitoIdentityServiceProvider.c1.undefined.idToken'' \<mapsto> Str ''t'']\<rparr>))
         ''CognitoIdentityServiceProvider.c1.undefined.idToken'' = None"
proof -
  have a: "signInUserSession (signOut sampleEnv sampleAuth) = None"
    by (simp add: signOut_def Let_def launchUri_def emit_def
        clearCachedTokensScopes_def removeItem_def)
  have b: "username (sampleAuth\<lparr>username := Undefined,
         storage := [''CognitoIdentityServiceProvider.c1.undefined.idToken'' \<mapsto> Str ''t'']\<rparr>)
       \<noteq> Str ''undefined''"
    by simp
  have c: "storage (signOut sampleEnv (sampleAuth\<lparr>username := Undefined,
         storage := [''CognitoIdentityServiceProvider.c1.undefined.idToken'' \<mapsto> Str ''t'']\<rparr>))
         ''CognitoIdentityServiceProvider.c1.undefined.idToken'' = None"
    by code_simp
  from a b c show ?thesis
    by simp
qed

section \<open>\<open>getSession\<close> and the scopes it compares\<close>

lemma getCachedSession_after_getFQDNSignIn:
  "getCachedSession (snd (getFQDNSignIn E s)) = getCachedSession s"
  by (simp add: getFQDNSignIn_snd getCachedSession_def userKey_def keyPrefix_def)

lemma getFQDNSignIn_fields:
  "tokenScopesArray (snd (getFQDNSignIn E s)) = tokenScopesArray s"
  "userhandler (snd (getFQDNSignIn E s)) = userhandler s"
  "trace (snd (getFQDNSignIn E s)) = trace s"
  by (simp_all add: getFQDNSignIn_snd)

text \<open>
  What \<open>getSession\<close> does with the scopes: when the held session is not valid and the
  configured scopes differ, as sets, from the scopes of the session held \<^emph>\<open>before\<close> the
  reload, the reloaded session is stripped of its tokens, given the configured scopes and
  held; the sign-in URL goes to the launcher and the promise is fulfilled with \<open>undefined\<close>.
\<close>

lemma getSession_held_scopes_mismatch:
  assumes "signInUserSession s = Some held" and "\<not> isValid E held"
    and "set (tokenScopesArray s) \<noteq> set (tokenScopes held)"
  shows "fst (getSession E s) = Fulfilled None
     \<and> signInUserSession (snd (getSession E s)) =
         Some ((getCachedSession s)\<lparr>tokenScopes := tokenScopesArray s,
                                    idToken := CognitoToken None,
                                    accessToken := CognitoToken None,
                                    refreshToken := CognitoRefreshToken None\<rparr>)
     \<and> (\<exists>URL. fst (getFQDNSignIn E s) = Inr URL
           \<and> launched (trace (snd (getSession E s))) = launched (trace s) @ [URL])"
proof -
  obtain r s1 where u: "getFQDNSignIn E s = (r, s1)"
    by (cases "getFQDNSignIn E s")
  from getFQDNSignIn_Some [OF assms(1), of E] u
  obtain URL where r: "r = Inr URL"
    by simp
  have s1: "s1 = snd (getFQDNSignIn E s)"
    by (simp add: u)
  have f: "getCachedSession s1 = getCachedSession s" "tokenScopesArray s1 = tokenScopesArray s"
    "trace s1 = trace s"
    by (simp_all add: s1 getCachedSession_after_getFQDNSignIn getFQDNSignIn_fields)
  have c: "\<not> compareSets (newSet (tokenScopesArray s)) (newSet (tokenScopes held))"
    using assms(3) by (simp add: compareSets_distinct distinct_newSet set_newSet)
  have g: "getSession E s =
      (Fulfilled None,
       notifySuccess None (launchUri URL (s1\<lparr>signInUserSession :=
          Some ((getCachedSession s)\<lparr>tokenScopes := tokenScopesArray s,
                                    idToken := CognitoToken None,
                                    accessToken := CognitoToken None,
                                    refreshToken := CognitoRefreshToken None\<rparr>)\<rparr>)))"
    using assms(1,2) c
    by (simp add: getSession_def u r Let_def f newCognitoToken_def newCognitoRefreshToken_def)
  show ?thesis
    by (simp add: g u r notifySuccess_def launchUri_def emit_def launched_append f)
qed


text \<open>
  When the configured scopes agree with the scopes of the session held before the reload,
  the scopes of the reloaded session are never looked at: a valid reloaded session is
  resolved whatever its scopes, and nothing is launched.
\<close>

lemma getSession_reloaded_scopes_unchecked:
  assumes "signInUserSession s = Some held" and "\<not> isValid E held"
    and "set (tokenScopesArray s) = set (tokenScopes held)"
    and "isValid E (getCachedSession s)"
  shows "fst (getSession E s) = Fulfilled (Some (getCachedSession s))
     \<and> signInUserSession (snd (getSession E s)) = Some (getCachedSession s)
     \<and> launched (trace (snd (getSession E s))) = launched (trace s)"
proof -
  obtain r s1 where u: "getFQDNSignIn E s = (r, s1)"
    by (cases "getFQDNSignIn E s")
  from getFQDNSignIn_Some [OF assms(1), of E] u
  obtain URL where r: "r = Inr URL"
    by simp
  have s1: "s1 = snd (getFQDNSignIn E s)"
    by (simp add: u)
  have f: "getCachedSession s1 = getCachedSession s" "tokenScopesArray s1 = tokenScopesArray s"
    "trace s1 = trace s"
    by (simp_all add: s1 getCachedSession_after_getFQDNSignIn getFQDNSignIn_fields)
  have c: "compareSets (newSet (tokenScopesArray s)) (newSet (tokenScopes held))"
    using assms(3) by (simp add: compareSets_distinct distinct_newSet set_newSet)
  have g: "getSession E s =
      (Fulfilled (Some (getCachedSession s)),
       notifySuccess (Some (getCachedSession s))
         (s1\<lparr>signInUserSession := Some (getCachedSession s)\<rparr>))"
    using assms(1,2,4) c
    by (simp add: getSession_def u r Let_def f)
  show ?thesis
    by (simp add: g notifySuccess_def emit_def launched_append f)
qed

text \<open>
  C1 at a concrete input. The storage caches the scope \<open>openid\<close> for \<open>alice\<close>, with
  expired tokens and a refresh token; the application is now configured with the scopes
  \<open>openid\<close> and \<open>email\<close>. The constructor builds \<open>sampleCodeAuth\<close> (code grant flow) and
  \<open>sampleAuth\<close> (implicit flow) from it, see \<open>constructor_sampleOptions\<close>: the held
  session carries the cached tokens and the configured scopes.

  The held session is not valid, and the configured scopes differ from the scopes of the
  session reloaded from the cache. \<open>getSession\<close> reads \<open>cachedScopesSet\<close> from the held
  session before it reloads, so it compares the configured scopes with themselves: it does
  not reset the session and does not redirect. Under the code grant flow it refreshes and
  resolves the reloaded session, whose scope is \<open>openid\<close>; under the implicit flow it
  rejects with the refresh-type error; there a second call, which holds the reloaded
  session, sees the mismatch and redirects.
\<close>

theorem getSession_compares_scopes_before_reload:
  "\<not> isValid sampleEnv sampleSession
   \<and> tokenScopes (getCachedSession sampleCodeAuth) = [''openid'']
   \<and> \<not> compareSets (newSet (tokenScopesArray sampleCodeAuth))
                     (newSet (tokenScopes (getCachedSession sampleCodeAuth)))
   \<and> fst (getSession sampleEnv sampleCodeAuth)
       = Fulfilled (Some \<lparr>idToken = CognitoToken (Some ''new''),
                           accessToken = CognitoToken (Some ''new''),
                           refreshToken = CognitoRefreshToken (Some ''r1''),
                           tokenScopes = [''openid''], csrfState = Null\<rparr>)
   \<and> launched (trace (snd (getSession sampleEnv sampleCodeAuth))) = []
   \<and> posted (trace (snd (getSession sampleEnv sampleCodeAuth))) = [RefreshGrant (Str ''r1'')]
   \<and> fst (getSession sampleEnv sampleAuth) = Rejected (Message REFRESHTYPEERROR)
   \<and> launched (trace (snd (getSession sampleEnv sampleAuth))) = []
   \<and> signInUserSession (snd (getSession sampleEnv sampleAuth))
       = Some \<lparr>idToken = CognitoToken (Some ''old''), accessToken = CognitoToken (Some ''old''),
               refreshToken = CognitoRefreshToken (Some ''r1''),
               tokenScopes = [''openid''], csrfState = Null\<rparr>
   \<and> fst (getSession sampleEnv (snd (getSession sampleEnv sampleAuth))) = Fulfilled None
   \<and> signInUserSession (snd (getSession sampleEnv (snd (getSession sampleEnv sampleAuth))))
       = Some \<lparr>idToken = CognitoToken None, accessToken = CognitoToken None,
               refreshToken = CognitoRefreshToken None,
               tokenScopes = [''openid'', ''email''], csrfState = Null\<rparr>
   \<and> launched (trace (snd (getSession sampleEnv (snd (getSession sampleEnv sampleAuth)))))
       = [''https://auth.example.com/oauth2/authorize?redirect_uri=https%3A%2F%2Fapp%2Fcb&response_type=token&client_id=c1&state=0123456789abcdefghijklmnopqrstuv&scope=openid''] "
  by code_simp

section \<open>An \<open>error\<close> field in a callback response\<close>

lemma resolveCognitoAuthSession_error:
  assumes "has m ERROR"
  shows "resolveCognitoAuthSession E m s = (Inl (ErrorOf PARSETYPEERROR), s)"
  using assms by (simp add: resolveCognitoAuthSession_def)

lemma parseCognitoWebResponse_token_error:
  assumes "responseType s = TOKEN" and "has (parseCognitoToken E r) ERROR"
  shows "parseCognitoWebResponse E r s = onRejected (ErrorOf PARSETYPEERROR) s"
  using assms by (simp add: parseCognitoWebResponse_def resolveCognitoAuthSession_error)

lemma parseCognitoWebResponse_code_error:
  assumes "responseType s \<noteq> TOKEN"
    and "has (getQueryParameters (split (CHR ''?'')) (splitREGEX2 E)
               (at (split (CHR ''#'') r) 0)) ERROR"
  shows "parseCognitoWebResponse E r s = (Threw (ErrorOf PARSETYPEERROR), s)"
  using assms by (simp add: parseCognitoWebResponse_def parseCognitoCode_def Let_def)

text \<open>
  C5 at a concrete input. Under the code grant flow with a registered handler, the callback
  response \<open>https://app/cb?error=access_denied\<close> parses to a mapping with the key \<open>error\<close>.
  \<open>parseCognitoCode\<close> throws the parse error itself, before \<open>parseCognitoWebResponse\<close> has a
  promise to attach \<open>catch\<close> to: the call throws, the handler's \<open>onFailure\<close> is not called
  and no promise is returned. The object (session and storage included) is unchanged. Under
  the implicit flow the same error is raised inside \<open>then\<close> and does reach the handler.
\<close>

theorem parseCognitoWebResponse_code_error_thrown:
  "responseType (sampleCodeAuth\<lparr>userhandler := True\<rparr>) = CODE
   \<and> has (getQueryParameters (split (CHR ''?'')) (splitREGEX2 sampleEnv)
            (at (split (CHR ''#'') ''https://app/cb?error=access_denied'') 0)) ERROR
   \<and> parseCognitoWebResponse sampleEnv ''https://app/cb?error=access_denied''
         (sampleCodeAuth\<lparr>userhandler := True\<rparr>)
       = (Threw (ErrorOf PARSETYPEERROR), sampleCodeAuth\<lparr>userhandler := True\<rparr>)
   \<and> trace (sampleCodeAuth\<lparr>userhandler := True\<rparr>) = []
   \<and> fst (parseCognitoWebResponse sampleEnv ''https://app/cb#error=access_denied''
              (sampleAuth\<lparr>userhandler := True\<rparr>)) = Fulfilled None
   \<and> trace (snd (parseCognitoWebResponse sampleEnv ''https://app/cb#error=access_denied''
                     (sampleAuth\<lparr>userhandler := True\<rparr>)))
       = [OnFailure (ErrorOf PARSETYPEERROR)]"
proof -
  have r: "responseType (sampleCodeAuth\<lparr>userhandler := True\<rparr>) = CODE"
    "trace (sampleCodeAuth\<lparr>userhandler := True\<rparr>) = []"
    by (simp_all add: sampleCodeAuth_def sampleAuth_def)
  have r': "responseType (sampleCodeAuth\<lparr>userhandler := True\<rparr>) \<noteq> TOKEN"
    by (simp add: r CODE_neq_TOKEN)
  have h: "has (getQueryParameters (split (CHR ''?'')) (splitREGEX2 sampleEnv)
            (at (split (CHR ''#'') ''https://app/cb?error=access_denied'') 0)) ERROR"
    by code_simp
  have i: "fst (parseCognitoWebResponse sampleEnv ''https://app/cb#error=access_denied''
              (sampleAuth\<lparr>userhandler := True\<rparr>)) = Fulfilled None"
    "trace (snd (parseCognitoWebResponse sampleEnv ''https://app/cb#error=access_denied''
                     (sampleAuth\<lparr>userhandler := True\<rparr>)))
       = [OnFailure (ErrorOf PARSETYPEERROR)]"
    by code_simp+
  from r parseCognitoWebResponse_code_error [OF r' h] h i show ?thesis
    by blast
qed

end
